theory Spec2Isabelle
  imports Main "HOL-Library.Word"
begin

section \<open>JavaScript strings\<close>

text \<open>
  A JavaScript string is a sequence of UTF-16 code units, and \<open>.length\<close> counts code
  units. Identifiers of the program itself (action types, event names, key names, fetch
  reasons) are plain ASCII and are kept as HOL strings; text that comes from the user or
  from a remote service is a \<open>jsstring\<close>.
\<close>

type_synonym jsstring = "16 word list"

definition ascii :: "string \<Rightarrow> jsstring" where
  "ascii s = map (\<lambda>c. of_nat (of_char c)) s"

text \<open>
  \<open>String.prototype.trim\<close> removes WhiteSpace and LineTerminator code units from both
  ends (ECMAScript: TAB, LF, VT, FF, CR, SP, NBSP, U+1680, U+2000..U+200A, U+2028, U+2029,
  U+202F, U+205F, U+3000, BOM).
\<close>

definition isWhiteSpace :: "16 word \<Rightarrow> bool" where
  "isWhiteSpace c \<longleftrightarrow>
     (0x09 \<le> c \<and> c \<le> 0x0D) \<or> c = 0x20 \<or> c = 0xA0 \<or> c = 0x1680 \<or>
     (0x2000 \<le> c \<and> c \<le> 0x200A) \<or> c = 0x2028 \<or> c = 0x2029 \<or> c = 0x202F \<or>
     c = 0x205F \<or> c = 0x3000 \<or> c = 0xFEFF"

definition trim :: "jsstring \<Rightarrow> jsstring" where
  "trim s = rev (dropWhile isWhiteSpace (rev (dropWhile isWhiteSpace s)))"

subsection \<open>encodeURIComponent\<close>

text \<open>
  The built-in used by \<open>getRedirect\<close>. Code units of the unreserved set
  (\<open>A-Z a-z 0-9 - _ . ! ~ * ' ( )\<close>) are copied; every other code point is encoded in
  UTF-8 and each octet written as \<open>%XX\<close> with upper-case hexadecimal digits. A surrogate
  code unit that is not part of a pair makes the built-in throw \<open>URIError\<close>.
\<close>

datatype js_error = URIError | TypeError | ProviderError

definition isUnreserved :: "16 word \<Rightarrow> bool" where
  "isUnreserved c \<longleftrightarrow>
     (0x41 \<le> c \<and> c \<le> 0x5A) \<or> (0x61 \<le> c \<and> c \<le> 0x7A) \<or> (0x30 \<le> c \<and> c \<le> 0x39) \<or>
     c = 0x2D \<or> c = 0x5F \<or> c = 0x2E \<or> c = 0x21 \<or> c = 0x7E \<or> c = 0x2A \<or>
     c = 0x27 \<or> c = 0x28 \<or> c = 0x29"

definition isHighSurrogate :: "16 word \<Rightarrow> bool" where
  "isHighSurrogate c \<longleftrightarrow> 0xD800 \<le> c \<and> c \<le> 0xDBFF"

definition isLowSurrogate :: "16 word \<Rightarrow> bool" where
  "isLowSurrogate c \<longleftrightarrow> 0xDC00 \<le> c \<and> c \<le> 0xDFFF"

definition utf8 :: "nat \<Rightarrow> nat list" where
  "utf8 cp =
     (if cp < 0x80 then [cp]
      else if cp < 0x800 then [0xC0 + cp div 64, 0x80 + cp mod 64]
      else if cp < 0x10000 then
        [0xE0 + cp div 4096, 0x80 + (cp div 64) mod 64, 0x80 + cp mod 64]
      else
        [0xF0 + cp div 262144, 0x80 + (cp div 4096) mod 64,
         0x80 + (cp div 64) mod 64, 0x80 + cp mod 64])"

definition hexDigit :: "nat \<Rightarrow> 16 word" where
  "hexDigit n = (if n < 10 then of_nat (0x30 + n) else of_nat (0x41 + (n - 10)))"

definition percent :: "nat \<Rightarrow> jsstring" where
  "percent b = [0x25, hexDigit (b div 16), hexDigit (b mod 16)]"

definition escapeCodePoint :: "nat \<Rightarrow> jsstring" where
  "escapeCodePoint cp = concat (map percent (utf8 cp))"

definition surrogatePair :: "16 word \<Rightarrow> 16 word \<Rightarrow> nat" where
  "surrogatePair h l = (unat h - 0xD800) * 0x400 + (unat l - 0xDC00) + 0x10000"

definition andThen :: "js_error + 'a \<Rightarrow> ('a \<Rightarrow> 'b) \<Rightarrow> js_error + 'b" where
  "andThen r f = (case r of Inl e \<Rightarrow> Inl e | Inr s \<Rightarrow> Inr (f s))"

fun encodeURIComponent :: "jsstring \<Rightarrow> js_error + jsstring" where
  "encodeURIComponent [] = Inr []"
| "encodeURIComponent [c] =
     (if isUnreserved c then Inr [c]
      else if isHighSurrogate c \<or> isLowSurrogate c then Inl URIError
      else Inr (escapeCodePoint (unat c)))"
| "encodeURIComponent (c # d # ds) =
     (if isUnreserved c then andThen (encodeURIComponent (d # ds)) ((#) c)
      else if isLowSurrogate c then Inl URIError
      else if isHighSurrogate c then
        (if isLowSurrogate d
         then andThen (encodeURIComponent ds) ((@) (escapeCodePoint (surrogatePair c d)))
         else Inl URIError)
      else andThen (encodeURIComponent (d # ds)) ((@) (escapeCodePoint (unat c))))"

text \<open>A string is well formed when every surrogate code unit is part of a pair.\<close>

fun isWellFormed :: "jsstring \<Rightarrow> bool" where
  "isWellFormed [] = True"
| "isWellFormed [c] = (\<not> isHighSurrogate c \<and> \<not> isLowSurrogate c)"
| "isWellFormed (c # d # ds) =
     (if isLowSurrogate c then False
      else if isHighSurrogate c then isLowSurrogate d \<and> isWellFormed ds
      else isWellFormed (d # ds))"

text \<open>Text that holds nothing but unreserved characters and the percent sign.\<close>

definition isEscaped :: "jsstring \<Rightarrow> bool" where
  "isEscaped q \<longleftrightarrow> list_all (\<lambda>c. isUnreserved c \<or> c = 0x25) q"

section \<open>Masthead search: the view-state and its reducer\<close>

record 's state =
  val :: jsstring
  suggestions :: "'s list"
  prevSuggestions :: "'s list"
  suggestionContainerVisible :: bool
  isSearchOpen :: bool
  lc :: jsstring
  cc :: jsstring

text \<open>
  An action is an object with a \<open>type\<close> string and a payload. The reducer reads from the
  payload only the field that belongs to the action's type, so the payload is a record
  of the four fields the reducer can read; the fields an action does not carry are never
  looked at.
\<close>

record 's payload =
  p_val :: jsstring
  p_prevSuggestions :: "'s list"
  p_lc :: jsstring
  p_cc :: jsstring

record 's action =
  atype :: string
  payload :: "'s payload"

definition noPayload :: "'s payload" where
  "noPayload = \<lparr>p_val = [], p_prevSuggestions = [], p_lc = [], p_cc = []\<rparr>"

definition act :: "string \<Rightarrow> 's action" where
  "act t = \<lparr>atype = t, payload = noPayload\<rparr>"

definition setVal :: "jsstring \<Rightarrow> 's action" where
  "setVal v = \<lparr>atype = ''setVal'', payload = noPayload\<lparr>p_val := v\<rparr>\<rparr>"

definition setPrevSuggestions :: "'s list \<Rightarrow> 's action" where
  "setPrevSuggestions r =
     \<lparr>atype = ''setPrevSuggestions'', payload = noPayload\<lparr>p_prevSuggestions := r\<rparr>\<rparr>"

definition setLc :: "jsstring \<Rightarrow> 's action" where
  "setLc v = \<lparr>atype = ''setLc'', payload = noPayload\<lparr>p_lc := v\<rparr>\<rparr>"

definition setCc :: "jsstring \<Rightarrow> 's action" where
  "setCc v = \<lparr>atype = ''setCc'', payload = noPayload\<lparr>p_cc := v\<rparr>\<rparr>"

text \<open>
  \<open>_reducer\<close>: a switch on \<open>action.type\<close>; \<open>Object.assign({}, state, {f: v})\<close> is the
  record update of field \<open>f\<close>; the default case returns the state itself.
\<close>

definition reducer :: "'s state \<Rightarrow> 's action \<Rightarrow> 's state" where
  "reducer s a =
     (if atype a = ''setVal'' then s\<lparr>val := p_val (payload a)\<rparr>
      else if atype a = ''emptySuggestions'' then s\<lparr>suggestions := []\<rparr>
      else if atype a = ''setPrevSuggestions'' then
        s\<lparr>prevSuggestions := p_prevSuggestions (payload a)\<rparr>
      else if atype a = ''setSuggestionsToPrevious'' then s\<lparr>suggestions := prevSuggestions s\<rparr>
      else if atype a = ''showSuggestionsContainer'' then s\<lparr>suggestionContainerVisible := True\<rparr>
      else if atype a = ''hideSuggestionsContainer'' then s\<lparr>suggestionContainerVisible := False\<rparr>
      else if atype a = ''setSearchOpen'' then s\<lparr>isSearchOpen := True\<rparr>
      else if atype a = ''setSearchClosed'' then s\<lparr>isSearchOpen := False\<rparr>
      else if atype a = ''setLc'' then s\<lparr>lc := p_lc (payload a)\<rparr>
      else if atype a = ''setCc'' then s\<lparr>cc := p_cc (payload a)\<rparr>
      else s)"

text \<open>Successive \<open>dispatch\<close> calls of one handler: the reducer folded over the actions.\<close>

definition dispatch :: "'s state \<Rightarrow> 's action list \<Rightarrow> 's state" where
  "dispatch s as = foldl reducer s as"

section \<open>Masthead search: the component\<close>

text \<open>
  What a suggestion provider's promise settles to: \<open>undefined\<close>, a defined result (the
  ordered collection of suggestion records), or a rejection.
\<close>

datatype 'r reply = Undefined | Defined 'r | Throws

text \<open>
  The props of \<open>MastheadSearch\<close> the handlers read, together with what the module takes
  from outside this file: \<open>SearchTypeaheadAPI.getResults\<close>, the utility \<open>escapeRegExp\<close>,
  the built-in \<open>toLowerCase\<close> and the configured \<open>_redirectUrl\<close>, all as parameters.
\<close>

record 's props =
  placeHolderText :: jsstring
  initialSearchTerm :: jsstring
  renderValue :: int
  searchOpenOnload :: bool
  searchNoRedirect :: bool
  customTypeaheadApi :: "(jsstring \<Rightarrow> 's list reply) option"
  getResults :: "jsstring \<Rightarrow> 's list reply"
  escapeRegExp :: "jsstring \<Rightarrow> jsstring"
  toLowerCase :: "jsstring \<Rightarrow> jsstring"
  redirectUrl :: jsstring

text \<open>\<open>MastheadSearch.defaultProps\<close>: the four props that have a default.\<close>

definition defaultProps :: "'s props \<Rightarrow> 's props" where
  "defaultProps p =
     p\<lparr>placeHolderText := ascii ''Search all of IBM'',
       initialSearchTerm := [],
       renderValue := 3,
       searchOpenOnload := False\<rparr>"

text \<open>
  \<open>_initialState\<close>. \<open>a || b || ''\<close> on strings takes the first non-empty one;
  \<open>getValueFromQueryString\<close> yields the \<open>q\<close> parameter of the page, \<open>null\<close> when
  there is none.
\<close>

definition initialState :: "'s props \<Rightarrow> jsstring option \<Rightarrow> 's state" where
  "initialState p queryValue =
     \<lparr>val = (if initialSearchTerm p \<noteq> [] then initialSearchTerm p
             else case queryValue of None \<Rightarrow> [] | Some q \<Rightarrow> q),
      suggestions = [],
      prevSuggestions = [],
      suggestionContainerVisible = False,
      isSearchOpen = searchOpenOnload p,
      lc = ascii ''en'',
      cc = ascii ''us''\<rparr>"

text \<open>
  Everything a handler touches outside the view-state: the location of the parent window,
  the custom events dispatched on the DOM, whether the default action of the handled
  event was prevented, the queries sent to the suggestion provider, the number of locale
  lookups started, whether the search icon was given the focus, and the exceptions no
  handler caught.
\<close>

record custom_event =
  ev_name :: string
  bubbles :: bool
  ev_detail :: "jsstring option"

record world =
  location :: jsstring
  events :: "custom_event list"
  defaultPrevented :: bool
  requests :: "jsstring list"
  localeCalls :: nat
  iconFocused :: bool
  uncaught :: "js_error list"

definition emit :: "string \<Rightarrow> jsstring option \<Rightarrow> world \<Rightarrow> world" where
  "emit n d w = w\<lparr>events := events w @ [\<lparr>ev_name = n, bubbles = True, ev_detail = d\<rparr>]\<rparr>"

definition raise :: "js_error \<Rightarrow> world \<Rightarrow> world" where
  "raise e w = w\<lparr>uncaught := uncaught w @ [e]\<rparr>"

definition trimAndLower :: "'s props \<Rightarrow> jsstring \<Rightarrow> jsstring" where
  "trimAndLower p valueString = trim (toLowerCase p valueString)"

subsection \<open>The locale effect\<close>

text \<open>
  The effect run on mount (lines 126 to 147). Both the native \<open>AbortController\<close> and
  the fallback object start with a signal that is not aborted, and \<open>abort()\<close> sets it.
  The effect calls \<open>abort()\<close> once before it starts the lookup (line 136) and once more
  in its cleanup.
\<close>

record abortController =
  aborted :: bool

record localeResponse =
  locale_lc :: jsstring
  locale_cc :: jsstring

definition newAbortController :: "bool \<Rightarrow> abortController" where
  "newAbortController native = (if native then \<lparr>aborted = False\<rparr> else \<lparr>aborted = False\<rparr>)"

definition abort :: "abortController \<Rightarrow> abortController" where
  "abort c = c\<lparr>aborted := True\<rparr>"

definition localeEffect :: "bool \<Rightarrow> world \<Rightarrow> abortController \<times> world" where
  "localeEffect native w =
     (let abortController = newAbortController native;
          abortController = abort abortController
      in (abortController, w\<lparr>localeCalls := localeCalls w + 1\<rparr>))"

text \<open>The continuation after \<open>await LocaleAPI.getLang()\<close>; \<open>None\<close> is a falsy response.\<close>

definition localeResolved :: "abortController \<Rightarrow> localeResponse option \<Rightarrow> 's state \<Rightarrow> 's state" where
  "localeResolved c response s =
     (case response of
        None \<Rightarrow> s
      | Some r \<Rightarrow>
          if \<not> aborted c then dispatch s [setLc (locale_lc r), setCc (locale_cc r)] else s)"

definition localeCleanup :: "abortController \<Rightarrow> abortController" where
  "localeCleanup c = abort c"

subsection \<open>Dismissal\<close>

definition handleHideSearch :: "string \<Rightarrow> 's state \<Rightarrow> 's state" where
  "handleHideSearch key s =
     (if key = ''Escape'' then
        (if \<not> suggestionContainerVisible s then dispatch s [act ''setSearchClosed''] else s)
      else s)"

text \<open>
  A click, as \<open>handleClickOutside\<close> sees it: whether the component has an enclosing
  \<open>.bx--masthead\<close> element, and whether that element contains the click's target.
\<close>

record click =
  hasMasthead :: bool
  insideMasthead :: bool

definition handleClickOutside :: "click \<Rightarrow> 's state \<Rightarrow> 's state" where
  "handleClickOutside c s =
     (if hasMasthead c \<and> \<not> insideMasthead c then
        (if length (val s) = 0 then dispatch s [act ''setSearchClosed''] else s)
      else s)"

subsection \<open>Input, icon and close button\<close>

definition onSearchNoRedirect :: "jsstring \<Rightarrow> world \<Rightarrow> world" where
  "onSearchNoRedirect v w = emit ''onSearchNoRedirect'' (Some v) w"

definition onChange :: "jsstring \<Rightarrow> 's state \<times> world \<Rightarrow> 's state \<times> world" where
  "onChange newValue sw =
     (case sw of (s, w) \<Rightarrow>
        (dispatch s [setVal newValue], emit ''onSearchValueChanged'' (Some newValue) w))"

definition onKeyDown :: "'s props \<Rightarrow> string \<Rightarrow> 's state \<times> world \<Rightarrow> 's state \<times> world" where
  "onKeyDown p key sw =
     (case sw of (s, w) \<Rightarrow>
        if key = ''Enter'' \<and> searchNoRedirect p
        then (s, (onSearchNoRedirect (val s) w)\<lparr>defaultPrevented := True\<rparr>)
        else (s, w))"

definition getRedirect :: "'s props \<Rightarrow> 's state \<Rightarrow> jsstring \<Rightarrow> js_error + jsstring" where
  "getRedirect p s v =
     andThen (encodeURIComponent v)
       (\<lambda>q. redirectUrl p @ ascii ''&q='' @ q @ ascii ''&lang='' @ lc s @ ascii ''&cc='' @ cc s)"

definition navigate :: "js_error + jsstring \<Rightarrow> world \<Rightarrow> world" where
  "navigate target w = (case target of Inl e \<Rightarrow> raise e w | Inr url \<Rightarrow> w\<lparr>location := url\<rparr>)"

definition searchIconClick :: "'s props \<Rightarrow> 's state \<times> world \<Rightarrow> 's state \<times> world" where
  "searchIconClick p sw =
     (case sw of (s, w) \<Rightarrow>
        let w1 = (if \<not> isSearchOpen s then emit ''onOpenSearch'' None w else w);
            w2 = (if isSearchOpen s then emit ''onSearchButtonClicked'' (Some (val s)) w1 else w1)
        in if isSearchOpen s \<and> length (val s) \<noteq> 0 then
             (if searchNoRedirect p then (s, onSearchNoRedirect (val s) w2)
              else (s, navigate (getRedirect p s (val s)) w2))
           else (dispatch s [act ''setSearchOpen''], w2))"

definition resetSearch :: "'s state \<Rightarrow> 's state" where
  "resetSearch s = dispatch s [act ''setSearchClosed'', setVal []]"

text \<open>
  \<open>closeBtnAction\<close>; \<open>iconFound\<close> says whether the query for the search icon found an
  element (\<open>searchIconRef[0].focus()\<close> throws on an empty node list).
\<close>

definition closeBtnAction :: "bool \<Rightarrow> 's state \<times> world \<Rightarrow> 's state \<times> world" where
  "closeBtnAction iconFound sw =
     (case sw of (s, w) \<Rightarrow>
        let w1 = emit ''onSearchCloseClicked'' None w
        in (resetSearch s, if iconFound then w1\<lparr>iconFocused := True\<rparr> else raise TypeError w1))"

subsection \<open>Suggestions\<close>

record request =
  req_value :: jsstring
  req_reason :: string

definition onSuggestionsClearedRequested :: "'s state \<Rightarrow> 's state" where
  "onSuggestionsClearedRequested s =
     dispatch s [act ''emptySuggestions'', act ''hideSuggestionsContainer'']"

definition typeahead :: "'s props \<Rightarrow> jsstring \<Rightarrow> 's list reply" where
  "typeahead p searchValue =
     (case customTypeaheadApi p of
        Some api \<Rightarrow> api searchValue
      | None \<Rightarrow> getResults p searchValue)"

text \<open>
  \<open>onSuggestionsFetchRequest\<close>. The state is the one current when the provider's promise
  settles: the three dispatches after the \<open>await\<close> run one after the other on it.
\<close>

definition onSuggestionsFetchRequest ::
  "'s props \<Rightarrow> request \<Rightarrow> 's state \<times> world \<Rightarrow> 's state \<times> world" where
  "onSuggestionsFetchRequest p request sw =
     (case sw of (s, w) \<Rightarrow>
        let searchValue = trimAndLower p (escapeRegExp p (req_value request)) in
        if req_reason request = ''input-changed'' then
          (let w1 = w\<lparr>requests := requests w @ [searchValue]\<rparr> in
           case typeahead p searchValue of
             Defined response \<Rightarrow>
               (dispatch s [setPrevSuggestions response, act ''setSuggestionsToPrevious'',
                            act ''showSuggestionsContainer''], w1)
           | Undefined \<Rightarrow> (s, w1)
           | Throws \<Rightarrow> (s, raise ProviderError w1))
        else if req_reason request = ''escape-pressed'' then
          (onSuggestionsClearedRequested s, w)
        else
          (dispatch s [act ''setSuggestionsToPrevious'', act ''showSuggestionsContainer''], w))"

definition onSuggestionSelected :: "'s props \<Rightarrow> 's state \<Rightarrow> jsstring \<Rightarrow> world \<Rightarrow> world" where
  "onSuggestionSelected p s suggestionValue w =
     (if searchNoRedirect p
      then (onSearchNoRedirect suggestionValue w)\<lparr>defaultPrevented := True\<rparr>
      else navigate (getRedirect p s suggestionValue) w)"

definition shouldRenderSuggestions :: "'s props \<Rightarrow> jsstring \<Rightarrow> bool" where
  "shouldRenderSuggestions p v \<longleftrightarrow> int (length (trim v)) \<ge> renderValue p"

subsection \<open>The handlers as one transition function\<close>

datatype handler =
    Change jsstring
  | KeyDown string
  | IconClick
  | CloseClick bool
  | FetchRequested request
  | ClearRequested
  | Selected jsstring
  | DocumentKeyDown string
  | DocumentClick click
  | LocaleArrived bool "localeResponse option"

fun handle :: "'s props \<Rightarrow> 's state \<times> world \<Rightarrow> handler \<Rightarrow> 's state \<times> world" where
  "handle p sw (Change v) = onChange v sw"
| "handle p sw (KeyDown k) = onKeyDown p k sw"
| "handle p sw IconClick = searchIconClick p sw"
| "handle p sw (CloseClick found) = closeBtnAction found sw"
| "handle p sw (FetchRequested r) = onSuggestionsFetchRequest p r sw"
| "handle p sw ClearRequested = (onSuggestionsClearedRequested (fst sw), snd sw)"
| "handle p sw (Selected v) = (fst sw, onSuggestionSelected p (fst sw) v (snd sw))"
| "handle p sw (DocumentKeyDown k) = (handleHideSearch k (fst sw), snd sw)"
| "handle p sw (DocumentClick c) = (handleClickOutside c (fst sw), snd sw)"
| "handle p sw (LocaleArrived native r) =
     (localeResolved (fst (localeEffect native (snd sw))) r (fst sw), snd sw)"

definition handleAll :: "'s props \<Rightarrow> 's state \<times> world \<Rightarrow> handler list \<Rightarrow> 's state \<times> world" where
  "handleAll p sw hs = foldl (handle p) sw hs"

definition freshWorld :: world where
  "freshWorld =
     \<lparr>location = [], events = [], defaultPrevented = False, requests = [],
      localeCalls = 0, iconFocused = False, uncaught = []\<rparr>"

text \<open>
  One press of Escape while the input has the focus: the capturing \<open>keydown\<close> listener
  on the document runs \<open>handleHideSearch\<close> first, then the suggestion engine asks for the
  suggestions to be cleared.
\<close>

definition pressEscape :: "'s state \<Rightarrow> 's state" where
  "pressEscape s = onSuggestionsClearedRequested (handleHideSearch ''Escape'' s)"

text \<open>The invariant of the data model: the active list is empty or is the cached list.\<close>

definition listInvariant :: "'s state \<Rightarrow> bool" where
  "listInvariant s \<longleftrightarrow> suggestions s = [] \<or> suggestions s = prevSuggestions s"

text \<open>The ten action types the reducer names, and the state field each may change.\<close>

definition namedKinds :: "string list" where
  "namedKinds =
     [''setVal'', ''emptySuggestions'', ''setPrevSuggestions'', ''setSuggestionsToPrevious'',
      ''showSuggestionsContainer'', ''hideSuggestionsContainer'', ''setSearchOpen'',
      ''setSearchClosed'', ''setLc'', ''setCc'']"

datatype field = FVal | FSuggestions | FPrevSuggestions | FVisible | FOpen | FLc | FCc

definition designated :: "string \<Rightarrow> field option" where
  "designated t =
     (if t = ''setVal'' then Some FVal
      else if t = ''emptySuggestions'' \<or> t = ''setSuggestionsToPrevious'' then Some FSuggestions
      else if t = ''setPrevSuggestions'' then Some FPrevSuggestions
      else if t = ''showSuggestionsContainer'' \<or> t = ''hideSuggestionsContainer'' then Some FVisible
      else if t = ''setSearchOpen'' \<or> t = ''setSearchClosed'' then Some FOpen
      else if t = ''setLc'' then Some FLc
      else if t = ''setCc'' then Some FCc
      else None)"

definition sameExcept :: "field \<Rightarrow> 's state \<Rightarrow> 's state \<Rightarrow> bool" where
  "sameExcept f s s' \<longleftrightarrow>
     (f \<noteq> FVal \<longrightarrow> val s' = val s) \<and>
     (f \<noteq> FSuggestions \<longrightarrow> suggestions s' = suggestions s) \<and>
     (f \<noteq> FPrevSuggestions \<longrightarrow> prevSuggestions s' = prevSuggestions s) \<and>
     (f \<noteq> FVisible \<longrightarrow> suggestionContainerVisible s' = suggestionContainerVisible s) \<and>
     (f \<noteq> FOpen \<longrightarrow> isSearchOpen s' = isSearchOpen s) \<and>
     (f \<noteq> FLc \<longrightarrow> lc s' = lc s) \<and>
     (f \<noteq> FCc \<longrightarrow> cc s' = cc s)"

section \<open>Video player\<close>

text \<open>
  Modelled from the spec: the enumeration \<open>VIDEO_PLAYER_CONTENT_STATE\<close> is declared in
  \<open>./defs\<close>, which is not among the sources; the class uses its two members
  \<open>THUMBNAIL\<close> and \<open>VIDEO\<close>, the two states the specification names.
\<close>

datatype VIDEO_PLAYER_CONTENT_STATE = THUMBNAIL | VIDEO

text \<open>
  The properties of \<open>DDSVideoPlayer\<close>, and the \<open>aria-label\<close> attribute of the host
  element. The two formatters are properties holding functions; \<open>'d\<close> is whatever the
  duration formatter produces. The duration is a number of seconds, absent when
  \<open>undefined\<close>.
\<close>

record 'd player =
  contentState :: VIDEO_PLAYER_CONTENT_STATE
  duration :: "int option"
  formatCaption :: "'d \<Rightarrow> jsstring \<Rightarrow> jsstring"
  formatDuration :: "int option \<Rightarrow> 'd"
  hideCaption :: bool
  name :: jsstring
  thumbnailUrl :: jsstring
  videoId :: "jsstring option"
  aspectRatio :: "jsstring option"
  ariaLabel :: "jsstring option"

text \<open>The field initialisers of the class, for given (default) formatters.\<close>

definition newPlayer :: "('d \<Rightarrow> jsstring \<Rightarrow> jsstring) \<Rightarrow> (int option \<Rightarrow> 'd) \<Rightarrow> 'd player" where
  "newPlayer formatVideoCaption formatVideoDuration =
     \<lparr>contentState = THUMBNAIL,
      duration = None,
      formatCaption = formatVideoCaption,
      formatDuration = formatVideoDuration,
      hideCaption = False,
      name = [],
      thumbnailUrl = ascii ''data:image/svg+xml,%3Csvg xmlns=\"http://www.w3.org/2000/svg\"/%3E'',
      videoId = None,
      aspectRatio = None,
      ariaLabel = None\<rparr>"

record contentStateChange =
  detail_videoId :: "jsstring option"
  detail_contentState :: VIDEO_PLAYER_CONTENT_STATE

definition handleClickOverlay :: "'d player \<Rightarrow> 'd player \<times> contentStateChange list" where
  "handleClickOverlay p =
     (p\<lparr>contentState := VIDEO\<rparr>,
      [\<lparr>detail_videoId = videoId p, detail_contentState = VIDEO\<rparr>])"

text \<open>
  \<open>_renderContent\<close>: the overlay button, which carries the click handler, in the
  thumbnail state; the slot otherwise.
\<close>

datatype content = Overlay | Slot

definition renderContent :: "'d player \<Rightarrow> content" where
  "renderContent p = (if contentState p = THUMBNAIL then Overlay else Slot)"

text \<open>
  The caption both \<open>render\<close> and \<open>updated\<close> compute:
  \<open>!duration ? duration : duration * 1000\<close> leaves an absent or zero duration as it is.
\<close>

definition caption :: "'d player \<Rightarrow> jsstring" where
  "caption p =
     formatCaption p
       (formatDuration p
          (case duration p of
             None \<Rightarrow> None
           | Some d \<Rightarrow> if d = 0 then Some d else Some (d * 1000)))
       (name p)"

definition render :: "'d player \<Rightarrow> content \<times> jsstring option" where
  "render p = (renderContent p, if hideCaption p then None else Some (caption p))"

text \<open>\<open>updated\<close>; \<open>changed\<close> holds the names of the changed properties.\<close>

definition updated :: "string list \<Rightarrow> 'd player \<Rightarrow> 'd player" where
  "updated changedProperties p =
     (if ''duration'' \<in> set changedProperties \<or> ''formatCaption'' \<in> set changedProperties \<or>
         ''name'' \<in> set changedProperties
      then (if caption p \<noteq> [] then p\<lparr>ariaLabel := Some (caption p)\<rparr> else p)
      else p)"

subsection \<open>The element in the page\<close>

text \<open>
  The element as a host page has it: its properties, the content its shadow root shows
  (nothing before the first render), and the names of the properties changed since the
  last update. Assigning a property stores the value at once and, when the value differs
  from the old one, requests an update; the update itself comes later and on its own:
  it renders from the properties and then calls \<open>updated\<close> with the changed names. So
  the overlay button stays in the shadow root, and can be clicked, until the next update
  has rendered.
\<close>

record 'd element =
  properties :: "'d player"
  shadow :: "content option"
  pending :: "string list"

definition setProperty :: "string \<Rightarrow> bool \<Rightarrow> 'd player \<Rightarrow> 'd element \<Rightarrow> 'd element" where
  "setProperty n differs p e =
     e\<lparr>properties := p, pending := (if differs then pending e @ [n] else pending e)\<rparr>"

text \<open>
  A new element: the field initialisers have run (each property with an initialiser
  counts as changed), nothing is rendered yet.
\<close>

definition newElement :: "('d \<Rightarrow> jsstring \<Rightarrow> jsstring) \<Rightarrow> (int option \<Rightarrow> 'd) \<Rightarrow> 'd element" where
  "newElement formatVideoCaption formatVideoDuration =
     \<lparr>properties = newPlayer formatVideoCaption formatVideoDuration,
      shadow = None,
      pending = [''contentState'', ''formatCaption'', ''formatDuration'', ''hideCaption'',
                 ''name'', ''thumbnailUrl'']\<rparr>"

definition performUpdate :: "'d element \<Rightarrow> 'd element" where
  "performUpdate e =
     (if pending e = [] then e
      else \<lparr>properties = updated (pending e) (properties e),
            shadow = Some (fst (render (properties e))),
            pending = []\<rparr>)"

text \<open>
  What can happen to the element: a click on the overlay button (there is one to click
  only while the shadow root shows it; the handler itself tests nothing), a pending
  update being performed, and the host assigning one of the public properties, among
  them \<open>contentState\<close> (reflected to the attribute \<open>content-state\<close>).
\<close>

datatype 'd gesture =
    ClickOverlay
  | PerformUpdate
  | SetContentState VIDEO_PLAYER_CONTENT_STATE
  | SetDuration "int option"
  | SetFormatCaption "'d \<Rightarrow> jsstring \<Rightarrow> jsstring"
  | SetFormatDuration "int option \<Rightarrow> 'd"
  | SetHideCaption bool
  | SetName jsstring
  | SetThumbnailUrl jsstring
  | SetVideoId "jsstring option"
  | SetAspectRatio "jsstring option"

fun step :: "'d element \<Rightarrow> 'd gesture \<Rightarrow> 'd element \<times> contentStateChange list" where
  "step e ClickOverlay =
     (if shadow e = Some Overlay then
        (case handleClickOverlay (properties e) of
           (p, notifications) \<Rightarrow>
             (setProperty ''contentState'' (contentState (properties e) \<noteq> VIDEO) p e,
              notifications))
      else (e, []))"
| "step e PerformUpdate = (performUpdate e, [])"
| "step e (SetContentState v) =
     (setProperty ''contentState'' (contentState (properties e) \<noteq> v)
        ((properties e)\<lparr>contentState := v\<rparr>) e, [])"
| "step e (SetDuration v) =
     (setProperty ''duration'' (duration (properties e) \<noteq> v)
        ((properties e)\<lparr>duration := v\<rparr>) e, [])"
| "step e (SetFormatCaption v) =
     (setProperty ''formatCaption'' (formatCaption (properties e) \<noteq> v)
        ((properties e)\<lparr>formatCaption := v\<rparr>) e, [])"
| "step e (SetFormatDuration v) =
     (setProperty ''formatDuration'' (formatDuration (properties e) \<noteq> v)
        ((properties e)\<lparr>formatDuration := v\<rparr>) e, [])"
| "step e (SetHideCaption v) =
     (setProperty ''hideCaption'' (hideCaption (properties e) \<noteq> v)
        ((properties e)\<lparr>hideCaption := v\<rparr>) e, [])"
| "step e (SetName v) =
     (setProperty ''name'' (name (properties e) \<noteq> v)
        ((properties e)\<lparr>name := v\<rparr>) e, [])"
| "step e (SetThumbnailUrl v) =
     (setProperty ''thumbnailUrl'' (thumbnailUrl (properties e) \<noteq> v)
        ((properties e)\<lparr>thumbnailUrl := v\<rparr>) e, [])"
| "step e (SetVideoId v) =
     (setProperty ''videoId'' (videoId (properties e) \<noteq> v)
        ((properties e)\<lparr>videoId := v\<rparr>) e, [])"
| "step e (SetAspectRatio v) =
     (setProperty ''aspectRatio'' (aspectRatio (properties e) \<noteq> v)
        ((properties e)\<lparr>aspectRatio := v\<rparr>) e, [])"

fun run :: "'d element \<Rightarrow> 'd gesture list \<Rightarrow> 'd element \<times> contentStateChange list" where
  "run e [] = (e, [])"
| "run e (g # gs) =
     (case step e g of (e', ns) \<Rightarrow> case run e' gs of (e'', ns') \<Rightarrow> (e'', ns @ ns'))"

text \<open>The gestures by which the host itself assigns the content state.\<close>

fun assignsContentState :: "'d gesture \<Rightarrow> bool" where
  "assignsContentState (SetContentState v) = True"
| "assignsContentState g = False"

text \<open>Two caption formatters a host may plug in, used in the examples below.\<close>

definition nameOnly :: "jsstring \<Rightarrow> jsstring \<Rightarrow> jsstring" where
  "nameOnly d n = n"

definition noDuration :: "int option \<Rightarrow> jsstring" where
  "noDuration d = []"

section \<open>A concrete configuration\<close>

text \<open>
  The example of the specification: default props, the default endpoint, and a provider
  that answers the query \<open>cloud\<close> with the one suggestion \<open>Cloud Computing\<close> and any
  other query with \<open>undefined\<close>. A suggestion is represented by its name.
\<close>

definition lowerAscii :: "jsstring \<Rightarrow> jsstring" where
  "lowerAscii s = map (\<lambda>c. if 0x41 \<le> c \<and> c \<le> 0x5A then c + 0x20 else c) s"

definition cloudProvider :: "jsstring \<Rightarrow> jsstring list reply" where
  "cloudProvider q = (if q = ascii ''cloud'' then Defined [ascii ''Cloud Computing''] else Undefined)"

definition demoProps :: "jsstring props" where
  "demoProps =
     defaultProps
       \<lparr>placeHolderText = [], initialSearchTerm = [], renderValue = 0,
        searchOpenOnload = False, searchNoRedirect = False, customTypeaheadApi = None,
        getResults = cloudProvider, escapeRegExp = id, toLowerCase = lowerAscii,
        redirectUrl = ascii ''https://www.ibm.com/search?lnk=mhsrch''\<rparr>"

definition demoState :: "jsstring state" where
  "demoState = initialState demoProps None"

text \<open>An open widget with typed text and the suggestion panel showing.\<close>

definition openWithPanel :: "jsstring state" where
  "openWithPanel =
     demoState\<lparr>val := ascii ''cloud'', suggestions := [ascii ''Cloud Computing''],
       prevSuggestions := [ascii ''Cloud Computing''], suggestionContainerVisible := True,
       isSearchOpen := True\<rparr>"

text \<open>A player with a video identifier and a name, and the two formatters above.\<close>

definition demoPlayer :: "jsstring player" where
  "demoPlayer = (newPlayer nameOnly noDuration)\<lparr>videoId := Some (ascii ''0_uka1msg4''), name := ascii ''Intro''\<rparr>"

text \<open>The same player after its name was cleared, still carrying the label set before.\<close>

definition labelledPlayer :: "jsstring player" where
  "labelledPlayer = demoPlayer\<lparr>name := [], ariaLabel := Some (ascii ''Intro'')\<rparr>"

text \<open>
  The element of that player once its first update has rendered the overlay.
\<close>

definition demoElement :: "jsstring element" where
  "demoElement =
     performUpdate ((newElement nameOnly noDuration)\<lparr>properties := demoPlayer\<rparr>)"

text \<open>
  The search after the text \<open>cloud\<close> was typed and its suggestions requested, the text
  was shortened to \<open>cl\<close> (which clears the list), and only then the provider's reply to
  the request for \<open>cloud\<close> arrived.
\<close>

definition lateReply :: "jsstring state" where
  "lateReply =
     fst (handleAll demoProps (demoState, freshWorld)
            [Change (ascii ''cloud''), Change (ascii ''cl''), ClearRequested,
             FetchRequested \<lparr>req_value = ascii ''cloud'', req_reason = ''input-changed''\<rparr>])"

section \<open>The reducer changes only the designated field\<close>

lemma reducer_other: "atype a \<notin> set namedKinds \<Longrightarrow> reducer s a = s"
  by (simp add: reducer_def namedKinds_def)

lemma designated_named: "designated t = Some f \<Longrightarrow> t \<in> set namedKinds"
  by (auto simp: designated_def namedKinds_def split: if_splits)

lemma reducer_sameExcept: "designated (atype a) = Some f \<Longrightarrow> sameExcept f s (reducer s a)"
  by (auto simp: designated_def reducer_def sameExcept_def split: if_splits)

text \<open>
  C10. The reducer is a total function of state and action. An action whose type is
  none of the ten named kinds gives back the state it was given; an action of a named
  kind changes at most the one field designated for that kind (the value written there is
  the payload's, a constant, or the cached list) and every other field is as before.
\<close>

theorem reducer_frame:
  "(atype a \<notin> set namedKinds \<longrightarrow> reducer s a = s) \<and>
   (atype a \<in> set namedKinds \<longrightarrow>
      (\<exists>f. designated (atype a) = Some f \<and> sameExcept f s (reducer s a))) \<and>
   (atype a = ''setVal'' \<longrightarrow> val (reducer s a) = p_val (payload a)) \<and>
   (atype a = ''emptySuggestions'' \<longrightarrow> suggestions (reducer s a) = []) \<and>
   (atype a = ''setPrevSuggestions'' \<longrightarrow>
      prevSuggestions (reducer s a) = p_prevSuggestions (payload a)) \<and>
   (atype a = ''setSuggestionsToPrevious'' \<longrightarrow> suggestions (reducer s a) = prevSuggestions s) \<and>
   (atype a = ''showSuggestionsContainer'' \<longrightarrow> suggestionContainerVisible (reducer s a)) \<and>
   (atype a = ''hideSuggestionsContainer'' \<longrightarrow> \<not> suggestionContainerVisible (reducer s a)) \<and>
   (atype a = ''setSearchOpen'' \<longrightarrow> isSearchOpen (reducer s a)) \<and>
   (atype a = ''setSearchClosed'' \<longrightarrow> \<not> isSearchOpen (reducer s a)) \<and>
   (atype a = ''setLc'' \<longrightarrow> lc (reducer s a) = p_lc (payload a)) \<and>
   (atype a = ''setCc'' \<longrightarrow> cc (reducer s a) = p_cc (payload a))"
proof -
  have named: "atype a \<in> set namedKinds \<Longrightarrow>
      \<exists>f. designated (atype a) = Some f \<and> sameExcept f s (reducer s a)"
  proof -
    assume "atype a \<in> set namedKinds"
    then obtain f where "designated (atype a) = Some f"
      by (auto simp: namedKinds_def designated_def)
    then show ?thesis
      using reducer_sameExcept by blast
  qed
  show ?thesis
    using named by (simp add: reducer_other) (simp add: reducer_def)
qed

theorem reducer_frame_witness:
  "atype (act ''refresh'' :: jsstring action) \<notin> set namedKinds \<and>
   reducer demoState (act ''refresh'') = demoState \<and>
   atype (setVal (ascii ''cloud'') :: jsstring action) \<in> set namedKinds \<and>
   designated (atype (setVal (ascii ''cloud'') :: jsstring action)) = Some FVal \<and>
   sameExcept FVal demoState (reducer demoState (setVal (ascii ''cloud''))) \<and>
   val (reducer demoState (setVal (ascii ''cloud''))) = ascii ''cloud'' \<and>
   prevSuggestions (reducer demoState (setPrevSuggestions [ascii ''Cloud Computing''])) =
     [ascii ''Cloud Computing''] \<and>
   suggestions (reducer demoState (act ''setSuggestionsToPrevious'')) = prevSuggestions demoState \<and>
   suggestions (reducer demoState (act ''emptySuggestions'')) = [] \<and>
   suggestionContainerVisible (reducer demoState (act ''showSuggestionsContainer'')) \<and>
   \<not> suggestionContainerVisible (reducer demoState (act ''hideSuggestionsContainer'')) \<and>
   isSearchOpen (reducer demoState (act ''setSearchOpen'')) \<and>
   \<not> isSearchOpen (reducer demoState (act ''setSearchClosed'')) \<and>
   lc (reducer demoState (setLc (ascii ''fr''))) = ascii ''fr'' \<and>
   cc (reducer demoState (setCc (ascii ''ca''))) = ascii ''ca''"
  using reducer_frame [of "act ''refresh''" demoState]
    reducer_frame [of "setVal (ascii ''cloud'')" demoState]
    reducer_frame [of "setPrevSuggestions [ascii ''Cloud Computing'']" demoState]
    reducer_frame [of "act ''setSuggestionsToPrevious''" demoState]
    reducer_frame [of "act ''emptySuggestions''" demoState]
    reducer_frame [of "act ''showSuggestionsContainer''" demoState]
    reducer_frame [of "act ''hideSuggestionsContainer''" demoState]
    reducer_frame [of "act ''setSearchOpen''" demoState]
    reducer_frame [of "act ''setSearchClosed''" demoState]
    reducer_frame [of "setLc (ascii ''fr'')" demoState]
    reducer_frame [of "setCc (ascii ''ca'')" demoState]
  by (simp add: act_def setVal_def setPrevSuggestions_def setLc_def setCc_def namedKinds_def
      designated_def noPayload_def)

section \<open>Dispatching actions\<close>

lemma dispatch_Nil: "dispatch s [] = s"
  by (simp add: dispatch_def)

lemma dispatch_Cons: "dispatch s (a # as) = dispatch (reducer s a) as"
  by (simp add: dispatch_def)

lemma reducer_setVal: "reducer s (setVal v) = s\<lparr>val := v\<rparr>"
  by (simp add: reducer_def setVal_def)

lemma reducer_setPrevSuggestions: "reducer s (setPrevSuggestions r) = s\<lparr>prevSuggestions := r\<rparr>"
  by (simp add: reducer_def setPrevSuggestions_def)

lemma reducer_setLc: "reducer s (setLc v) = s\<lparr>lc := v\<rparr>"
  by (simp add: reducer_def setLc_def)

lemma reducer_setCc: "reducer s (setCc v) = s\<lparr>cc := v\<rparr>"
  by (simp add: reducer_def setCc_def)

lemma reducer_act:
  "reducer s (act ''emptySuggestions'') = s\<lparr>suggestions := []\<rparr>"
  "reducer s (act ''setSuggestionsToPrevious'') = s\<lparr>suggestions := prevSuggestions s\<rparr>"
  "reducer s (act ''showSuggestionsContainer'') = s\<lparr>suggestionContainerVisible := True\<rparr>"
  "reducer s (act ''hideSuggestionsContainer'') = s\<lparr>suggestionContainerVisible := False\<rparr>"
  "reducer s (act ''setSearchOpen'') = s\<lparr>isSearchOpen := True\<rparr>"
  "reducer s (act ''setSearchClosed'') = s\<lparr>isSearchOpen := False\<rparr>"
  by (simp_all add: reducer_def act_def)

lemmas dispatch_simps =
  dispatch_Nil dispatch_Cons reducer_setVal reducer_setPrevSuggestions reducer_setLc
  reducer_setCc reducer_act

section \<open>Fetching suggestions\<close>

lemma demo_searchValue:
  "trimAndLower demoProps (escapeRegExp demoProps (ascii ''cloud'')) = ascii ''cloud''"
  by (simp add: demoProps_def defaultProps_def trimAndLower_def trim_def lowerAscii_def
      ascii_def isWhiteSpace_def)

lemma demo_typeahead: "typeahead demoProps (ascii ''cloud'') = Defined [ascii ''Cloud Computing'']"
  by (simp add: typeahead_def demoProps_def defaultProps_def cloudProvider_def)

lemma demo_typeahead_other: "typeahead demoProps (ascii ''clo'') = Undefined"
  by (simp add: typeahead_def demoProps_def defaultProps_def cloudProvider_def ascii_def)

lemma demo_searchValue_other:
  "trimAndLower demoProps (escapeRegExp demoProps (ascii '' Clo'')) = ascii ''clo''"
  by (simp add: demoProps_def defaultProps_def trimAndLower_def trim_def lowerAscii_def
      ascii_def isWhiteSpace_def)

text \<open>
  C1. A fetch request whose reason is \<open>input-changed\<close> and whose provider (the
  caller's \<open>customTypeaheadApi\<close> when given, the remote service otherwise) settles to a
  defined result leaves the cache equal to that result, the active list equal to the
  cache, and the panel flag set; nothing else of the state changes.
\<close>

theorem fetch_completed:
  assumes "req_reason request = ''input-changed''"
    and "typeahead p (trimAndLower p (escapeRegExp p (req_value request))) = Defined r"
  shows "prevSuggestions (fst (onSuggestionsFetchRequest p request (s, w))) = r \<and>
         suggestions (fst (onSuggestionsFetchRequest p request (s, w))) =
           prevSuggestions (fst (onSuggestionsFetchRequest p request (s, w))) \<and>
         suggestionContainerVisible (fst (onSuggestionsFetchRequest p request (s, w))) \<and>
         fst (onSuggestionsFetchRequest p request (s, w)) =
           s\<lparr>suggestions := r, prevSuggestions := r, suggestionContainerVisible := True\<rparr>"
  using assms by (simp add: onSuggestionsFetchRequest_def dispatch_simps)

text \<open>
  The example of the specification: the text \<open>cloud\<close> and a provider that returns the
  single suggestion \<open>Cloud Computing\<close>.
\<close>

theorem fetch_completed_witness:
  "req_reason \<lparr>req_value = ascii ''cloud'', req_reason = ''input-changed''\<rparr> = ''input-changed'' \<and>
   typeahead demoProps (trimAndLower demoProps (escapeRegExp demoProps (ascii ''cloud''))) =
     Defined [ascii ''Cloud Computing''] \<and>
   suggestions (fst (onSuggestionsFetchRequest demoProps
       \<lparr>req_value = ascii ''cloud'', req_reason = ''input-changed''\<rparr> (demoState, freshWorld))) =
     [ascii ''Cloud Computing''] \<and>
   prevSuggestions (fst (onSuggestionsFetchRequest demoProps
       \<lparr>req_value = ascii ''cloud'', req_reason = ''input-changed''\<rparr> (demoState, freshWorld))) =
     [ascii ''Cloud Computing''] \<and>
   suggestionContainerVisible (fst (onSuggestionsFetchRequest demoProps
       \<lparr>req_value = ascii ''cloud'', req_reason = ''input-changed''\<rparr> (demoState, freshWorld)))"
proof -
  let ?rq = "\<lparr>req_value = ascii ''cloud'', req_reason = ''input-changed''\<rparr>"
  have r: "req_reason ?rq = ''input-changed''" by simp
  have t: "typeahead demoProps (trimAndLower demoProps (escapeRegExp demoProps (req_value ?rq))) =
      Defined [ascii ''Cloud Computing'']"
    by (simp add: demo_searchValue demo_typeahead)
  show ?thesis
    using fetch_completed [OF r t, of demoState freshWorld] t by simp
qed

text \<open>
  C7. When the suggestion provider settles to \<open>undefined\<close> the whole view-state is as
  before and exactly one query was sent (nothing is retried); a locale lookup that
  yields no response leaves the state as it is, whatever the controller's signal, and the
  effect starts one lookup.
\<close>

theorem undefined_reply_keeps_state:
  "(req_reason request = ''input-changed'' \<and>
    typeahead p (trimAndLower p (escapeRegExp p (req_value request))) = Undefined \<longrightarrow>
      fst (onSuggestionsFetchRequest p request (s, w)) = s \<and>
      requests (snd (onSuggestionsFetchRequest p request (s, w))) =
        requests w @ [trimAndLower p (escapeRegExp p (req_value request))]) \<and>
   localeResolved c None s = s \<and>
   localeCalls (snd (localeEffect native w)) = localeCalls w + 1"
  by (simp add: onSuggestionsFetchRequest_def localeResolved_def localeEffect_def)

theorem undefined_reply_keeps_state_witness:
  "req_reason \<lparr>req_value = ascii '' Clo'', req_reason = ''input-changed''\<rparr> = ''input-changed'' \<and>
   typeahead demoProps (trimAndLower demoProps (escapeRegExp demoProps (ascii '' Clo''))) = Undefined \<and>
   fst (onSuggestionsFetchRequest demoProps
       \<lparr>req_value = ascii '' Clo'', req_reason = ''input-changed''\<rparr> (demoState, freshWorld)) = demoState \<and>
   requests (snd (onSuggestionsFetchRequest demoProps
       \<lparr>req_value = ascii '' Clo'', req_reason = ''input-changed''\<rparr> (demoState, freshWorld))) =
     [ascii ''clo''] \<and>
   localeResolved \<lparr>aborted = False\<rparr> None demoState = demoState"
  using undefined_reply_keeps_state [of "\<lparr>req_value = ascii '' Clo'', req_reason = ''input-changed''\<rparr>"
      demoProps demoState freshWorld "\<lparr>aborted = False\<rparr>" True]
  by (simp add: demo_searchValue_other demo_typeahead_other freshWorld_def)

text \<open>
  A provider whose promise rejects is no different for the view-state: nothing is
  dispatched, one query was sent, and the rejection is left uncaught.
\<close>

lemma rejected_reply_keeps_state:
  assumes "req_reason request = ''input-changed''"
    and "typeahead p (trimAndLower p (escapeRegExp p (req_value request))) = Throws"
  shows "onSuggestionsFetchRequest p request (s, w) =
     (s, raise ProviderError
           (w\<lparr>requests := requests w @ [trimAndLower p (escapeRegExp p (req_value request))]\<rparr>))"
  using assms by (simp add: onSuggestionsFetchRequest_def)

text \<open>
  For the other reasons no query is sent: Escape clears the list and hides the panel, any
  other reason shows the cached list again.
\<close>

lemma fetch_without_query:
  assumes "req_reason request \<noteq> ''input-changed''"
  shows "snd (onSuggestionsFetchRequest p request (s, w)) = w"
    and "req_reason request = ''escape-pressed'' \<Longrightarrow>
      fst (onSuggestionsFetchRequest p request (s, w)) =
        s\<lparr>suggestions := [], suggestionContainerVisible := False\<rparr>"
    and "req_reason request \<noteq> ''escape-pressed'' \<Longrightarrow>
      fst (onSuggestionsFetchRequest p request (s, w)) =
        s\<lparr>suggestions := prevSuggestions s, suggestionContainerVisible := True\<rparr>"
  using assms
  by (simp_all add: onSuggestionsFetchRequest_def onSuggestionsClearedRequested_def dispatch_simps)

section \<open>Dismissal by Escape and by a click outside\<close>

lemma pressEscape_visible:
  "suggestionContainerVisible s \<Longrightarrow>
     pressEscape s = s\<lparr>suggestions := [], suggestionContainerVisible := False\<rparr>"
  by (simp add: pressEscape_def handleHideSearch_def onSuggestionsClearedRequested_def
      dispatch_simps)

lemma pressEscape_hidden:
  "\<not> suggestionContainerVisible s \<Longrightarrow>
     pressEscape s = s\<lparr>suggestions := [], suggestionContainerVisible := False, isSearchOpen := False\<rparr>"
  by (simp add: pressEscape_def handleHideSearch_def onSuggestionsClearedRequested_def
      dispatch_simps)

text \<open>
  C5. Escape closes the widget exactly when the panel flag is off: with the panel
  showing, one press leaves the open flag as it was and hides the panel, and the next
  press closes the widget. A click outside the masthead closes the widget when the
  stored text is empty and changes nothing when it is not; no click closes a widget
  whose text is non-empty.
\<close>

theorem dismissal_policy:
  "handleHideSearch ''Escape'' s =
     (if suggestionContainerVisible s then s else s\<lparr>isSearchOpen := False\<rparr>) \<and>
   (key \<noteq> ''Escape'' \<longrightarrow> handleHideSearch key s = s) \<and>
   (suggestionContainerVisible s \<longrightarrow>
      isSearchOpen (pressEscape s) = isSearchOpen s \<and>
      \<not> suggestionContainerVisible (pressEscape s) \<and>
      \<not> isSearchOpen (pressEscape (pressEscape s))) \<and>
   (hasMasthead c \<and> \<not> insideMasthead c \<longrightarrow>
      handleClickOutside c s = (if val s = [] then s\<lparr>isSearchOpen := False\<rparr> else s)) \<and>
   (val s \<noteq> [] \<longrightarrow> handleClickOutside c s = s)"
proof -
  have esc: "handleHideSearch ''Escape'' s =
      (if suggestionContainerVisible s then s else s\<lparr>isSearchOpen := False\<rparr>)"
    by (simp add: handleHideSearch_def dispatch_simps)
  have other: "key \<noteq> ''Escape'' \<longrightarrow> handleHideSearch key s = s"
    by (simp add: handleHideSearch_def)
  have twice: "suggestionContainerVisible s \<longrightarrow>
      isSearchOpen (pressEscape s) = isSearchOpen s \<and>
      \<not> suggestionContainerVisible (pressEscape s) \<and>
      \<not> isSearchOpen (pressEscape (pressEscape s))"
  proof
    assume v: "suggestionContainerVisible s"
    let ?s1 = "pressEscape s"
    have s1: "?s1 = s\<lparr>suggestions := [], suggestionContainerVisible := False\<rparr>"
      using v by (rule pressEscape_visible)
    then have hidden: "\<not> suggestionContainerVisible ?s1" by simp
    have "\<not> isSearchOpen (pressEscape ?s1)"
      using pressEscape_hidden [OF hidden] by simp
    with s1 hidden show "isSearchOpen ?s1 = isSearchOpen s \<and>
      \<not> suggestionContainerVisible ?s1 \<and> \<not> isSearchOpen (pressEscape ?s1)"
      by simp
  qed
  have outside: "hasMasthead c \<and> \<not> insideMasthead c \<longrightarrow>
      handleClickOutside c s = (if val s = [] then s\<lparr>isSearchOpen := False\<rparr> else s)"
    by (simp add: handleClickOutside_def dispatch_simps)
  have typed: "val s \<noteq> [] \<longrightarrow> handleClickOutside c s = s"
    by (simp add: handleClickOutside_def)
  from esc other twice outside typed show ?thesis by blast
qed

theorem dismissal_policy_witness:
  "suggestionContainerVisible openWithPanel \<and>
   isSearchOpen (pressEscape openWithPanel) \<and>
   \<not> suggestionContainerVisible (pressEscape openWithPanel) \<and>
   \<not> isSearchOpen (pressEscape (pressEscape openWithPanel)) \<and>
   ''Enter'' \<noteq> ''Escape'' \<and> handleHideSearch ''Enter'' openWithPanel = openWithPanel \<and>
   hasMasthead \<lparr>hasMasthead = True, insideMasthead = False\<rparr> \<and>
   \<not> insideMasthead \<lparr>hasMasthead = True, insideMasthead = False\<rparr> \<and>
   val openWithPanel \<noteq> [] \<and>
   handleClickOutside \<lparr>hasMasthead = True, insideMasthead = False\<rparr> openWithPanel = openWithPanel \<and>
   val (openWithPanel\<lparr>val := []\<rparr>) = [] \<and>
   \<not> isSearchOpen (handleClickOutside \<lparr>hasMasthead = True, insideMasthead = False\<rparr>
      (openWithPanel\<lparr>val := []\<rparr>))"
  using dismissal_policy [of openWithPanel "''Enter''" "\<lparr>hasMasthead = True, insideMasthead = False\<rparr>"]
    dismissal_policy [of "openWithPanel\<lparr>val := []\<rparr>" "''Enter''"
      "\<lparr>hasMasthead = True, insideMasthead = False\<rparr>"]
  by (simp add: openWithPanel_def ascii_def)

section \<open>The rendering gate\<close>

lemma length_dropWhile_le': "length (dropWhile P xs) \<le> length xs"
  by (induction xs) auto

lemma length_trim_le: "length (trim v) \<le> length v"
proof -
  have "length (trim v) \<le> length (rev (dropWhile isWhiteSpace v))"
    unfolding trim_def using length_dropWhile_le' [of isWhiteSpace "rev (dropWhile isWhiteSpace v)"]
    by simp
  also have "\<dots> \<le> length v"
    using length_dropWhile_le' [of isWhiteSpace v] by simp
  finally show ?thesis .
qed

text \<open>
  No handler reads the gate, and the panel flag a handler leaves behind does not depend
  on the stored text.
\<close>

lemma flag_ignores_text:
  "suggestionContainerVisible (fst (handle p (s\<lparr>val := v\<rparr>, w) h)) =
   suggestionContainerVisible (fst (handle p (s, w) h))"
proof (cases h)
  case (Change x)
  then show ?thesis by (simp add: onChange_def dispatch_simps)
next
  case (KeyDown k)
  then show ?thesis by (simp add: onKeyDown_def)
next
  case IconClick
  then show ?thesis by (simp add: searchIconClick_def dispatch_simps Let_def)
next
  case (CloseClick found)
  then show ?thesis by (simp add: closeBtnAction_def resetSearch_def dispatch_simps Let_def)
next
  case (FetchRequested r)
  then show ?thesis
    by (simp add: onSuggestionsFetchRequest_def onSuggestionsClearedRequested_def dispatch_simps
        Let_def split: reply.split)
next
  case ClearRequested
  then show ?thesis by (simp add: onSuggestionsClearedRequested_def dispatch_simps)
next
  case (Selected x)
  then show ?thesis by simp
next
  case (DocumentKeyDown k)
  then show ?thesis by (simp add: handleHideSearch_def dispatch_simps)
next
  case (DocumentClick c)
  then show ?thesis by (simp add: handleClickOutside_def dispatch_simps)
next
  case (LocaleArrived native r)
  then show ?thesis by (simp add: localeResolved_def dispatch_simps split: option.split)
qed

text \<open>
  C6, as the code has it. The gate handed to the suggestion engine answers false for every
  text whose trimmed length is below \<open>renderValue\<close> (so also for every text that is
  itself shorter), and answers true exactly from that length on; the default
  \<open>renderValue\<close> is 3. The handlers of the component do not consult the gate: the panel
  flag they leave is the same whatever the stored text, and a completed fetch sets it
  whatever the stored text.
\<close>

theorem render_gate:
  "(int (length (trim v)) < renderValue p \<longrightarrow> \<not> shouldRenderSuggestions p v) \<and>
   (int (length v) < renderValue p \<longrightarrow> \<not> shouldRenderSuggestions p v) \<and>
   (shouldRenderSuggestions p v \<longleftrightarrow> renderValue p \<le> int (length (trim v))) \<and>
   renderValue (defaultProps p) = 3 \<and>
   suggestionContainerVisible (fst (handle p (s\<lparr>val := v\<rparr>, w) h)) =
     suggestionContainerVisible (fst (handle p (s, w) h)) \<and>
   (req_reason r = ''input-changed'' \<and>
    typeahead p (trimAndLower p (escapeRegExp p (req_value r))) = Defined x \<longrightarrow>
      suggestionContainerVisible (fst (onSuggestionsFetchRequest p r (s\<lparr>val := v\<rparr>, w))))"
proof -
  have le: "int (length (trim v)) \<le> int (length v)"
    using length_trim_le [of v] by simp
  have trimmed: "int (length (trim v)) < renderValue p \<longrightarrow> \<not> shouldRenderSuggestions p v"
    by (simp add: shouldRenderSuggestions_def)
  have raw: "int (length v) < renderValue p \<longrightarrow> \<not> shouldRenderSuggestions p v"
    using le by (simp add: shouldRenderSuggestions_def)
  have gate: "shouldRenderSuggestions p v \<longleftrightarrow> renderValue p \<le> int (length (trim v))"
    by (simp add: shouldRenderSuggestions_def)
  have dflt: "renderValue (defaultProps p) = 3"
    by (simp add: defaultProps_def)
  have late: "req_reason r = ''input-changed'' \<and>
    typeahead p (trimAndLower p (escapeRegExp p (req_value r))) = Defined x \<longrightarrow>
      suggestionContainerVisible (fst (onSuggestionsFetchRequest p r (s\<lparr>val := v\<rparr>, w)))"
    by (simp add: onSuggestionsFetchRequest_def dispatch_simps)
  show ?thesis
    by (intro conjI) (rule trimmed raw gate dflt flag_ignores_text late)+
qed

lemma trim_demo: "trim (ascii '' cl   '') = ascii ''cl''"
  by (simp add: trim_def ascii_def isWhiteSpace_def)

theorem render_gate_witness:
  "int (length (trim (ascii '' cl   ''))) < renderValue demoProps \<and>
   \<not> shouldRenderSuggestions demoProps (ascii '' cl   '') \<and>
   int (length (ascii ''cl'')) < renderValue demoProps \<and>
   \<not> shouldRenderSuggestions demoProps (ascii ''cl'') \<and>
   shouldRenderSuggestions demoProps (ascii ''cloud'') \<and>
   renderValue demoProps = 3 \<and>
   req_reason \<lparr>req_value = ascii ''cloud'', req_reason = ''input-changed''\<rparr> = ''input-changed'' \<and>
   typeahead demoProps (trimAndLower demoProps (escapeRegExp demoProps (ascii ''cloud''))) =
     Defined [ascii ''Cloud Computing''] \<and>
   suggestionContainerVisible (fst (onSuggestionsFetchRequest demoProps
      \<lparr>req_value = ascii ''cloud'', req_reason = ''input-changed''\<rparr>
      (demoState\<lparr>val := ascii ''cl''\<rparr>, freshWorld)))"
proof -
  let ?r = "\<lparr>req_value = ascii ''cloud'', req_reason = ''input-changed''\<rparr>"
  have t: "typeahead demoProps (trimAndLower demoProps (escapeRegExp demoProps (ascii ''cloud''))) =
     Defined [ascii ''Cloud Computing'']"
    by (simp add: demo_searchValue demo_typeahead)
  have rv: "renderValue demoProps = 3"
    by (simp add: demoProps_def defaultProps_def)
  have l1: "int (length (trim (ascii '' cl   ''))) < renderValue demoProps"
    by (simp add: rv trim_demo) (simp add: ascii_def)
  have l2: "int (length (ascii ''cl'')) < renderValue demoProps"
    by (simp add: rv ascii_def)
  have l3: "renderValue demoProps \<le> int (length (trim (ascii ''cloud'')))"
    by (simp add: rv ascii_def trim_def isWhiteSpace_def)
  have g1: "\<not> shouldRenderSuggestions demoProps (ascii '' cl   '')"
    using render_gate [of "ascii '' cl   ''" demoProps demoState freshWorld ClearRequested ?r
        "[ascii ''Cloud Computing'']"] l1 by blast
  have g2: "\<not> shouldRenderSuggestions demoProps (ascii ''cl'')"
    using render_gate [of "ascii ''cl''" demoProps demoState freshWorld ClearRequested ?r
        "[ascii ''Cloud Computing'']"] l2 by blast
  have g3: "shouldRenderSuggestions demoProps (ascii ''cloud'')"
    using render_gate [of "ascii ''cloud''" demoProps demoState freshWorld ClearRequested ?r
        "[ascii ''Cloud Computing'']"] l3 by blast
  have f: "suggestionContainerVisible (fst (onSuggestionsFetchRequest demoProps ?r
      (demoState\<lparr>val := ascii ''cl''\<rparr>, freshWorld)))"
    using render_gate [of "ascii ''cl''" demoProps demoState freshWorld ClearRequested ?r
        "[ascii ''Cloud Computing'']"] t by simp
  have rr: "req_reason ?r = ''input-changed''" by simp
  show ?thesis
    by (intro conjI) (rule l1 g1 l2 g2 g3 rv rr t f)+
qed

text \<open>
  C6 as stated fails at a reply that arrives late: the suggestions for \<open>cloud\<close> were
  requested, the text was shortened to \<open>cl\<close>, and then the reply came. The stored
  text is below the minimum, the gate answers false, and the panel flag is set with a
  suggestion in the active list.
\<close>

lemma lateReply_state:
  "lateReply =
     demoState\<lparr>val := ascii ''cl'', suggestions := [ascii ''Cloud Computing''],
       prevSuggestions := [ascii ''Cloud Computing''], suggestionContainerVisible := True\<rparr>"
  by (simp add: lateReply_def handleAll_def onChange_def onSuggestionsClearedRequested_def
      onSuggestionsFetchRequest_def demo_searchValue demo_typeahead dispatch_simps demoState_def
      initialState_def)

theorem render_gate_counterexample:
  "val lateReply = ascii ''cl'' \<and>
   int (length (trim (val lateReply))) < renderValue demoProps \<and>
   \<not> shouldRenderSuggestions demoProps (val lateReply) \<and>
   suggestionContainerVisible lateReply \<and>
   suggestions lateReply = [ascii ''Cloud Computing'']"
  by (simp add: lateReply_state shouldRenderSuggestions_def demoProps_def defaultProps_def)
    (simp add: ascii_def trim_def isWhiteSpace_def)

section \<open>The locale lookup\<close>

lemma localeEffect_aborted: "aborted (fst (localeEffect native w))"
  by (simp add: localeEffect_def abort_def Let_def)

text \<open>
  C4. The effect aborts its controller before the lookup is started, so the signal is
  already aborted when the response arrives: a defined response is dropped while the
  component is still mounted, and the language and country stay \<open>en\<close> and \<open>us\<close>.
  With a controller that has not been aborted the same continuation stores both codes.
\<close>

theorem locale_response_dropped:
  "localeResolved (fst (localeEffect native w)) (Some r) s = s \<and>
   lc (fst (handle demoProps (demoState, freshWorld)
        (LocaleArrived True (Some \<lparr>locale_lc = ascii ''fr'', locale_cc = ascii ''ca''\<rparr>)))) = ascii ''en'' \<and>
   cc (fst (handle demoProps (demoState, freshWorld)
        (LocaleArrived True (Some \<lparr>locale_lc = ascii ''fr'', locale_cc = ascii ''ca''\<rparr>)))) = ascii ''us'' \<and>
   localeResolved (newAbortController native) (Some r) s = s\<lparr>lc := locale_lc r, cc := locale_cc r\<rparr>"
  by (simp add: localeResolved_def localeEffect_aborted demoState_def initialState_def
      newAbortController_def dispatch_simps)

section \<open>Video player: the content state\<close>

lemma updated_contentState: "contentState (updated ch p) = contentState p"
  by (simp add: updated_def)

lemma performUpdate_contentState:
  "contentState (properties (performUpdate e)) = contentState (properties e)"
  by (simp add: performUpdate_def updated_contentState)

lemma step_notifications:
  "snd (step e g) =
     (if g = ClickOverlay \<and> shadow e = Some Overlay
      then [\<lparr>detail_videoId = videoId (properties e), detail_contentState = VIDEO\<rparr>]
      else [])"
  by (cases g) (simp_all add: handleClickOverlay_def)

lemma step_contentState:
  "contentState (properties (fst (step e g))) =
     (if g = ClickOverlay \<and> shadow e = Some Overlay then VIDEO
      else case g of SetContentState v \<Rightarrow> v | _ \<Rightarrow> contentState (properties e))"
  by (cases g)
    (simp_all add: handleClickOverlay_def setProperty_def performUpdate_contentState)

lemma step_keeps_video:
  "\<not> assignsContentState g \<Longrightarrow> contentState (properties e) = VIDEO \<Longrightarrow>
     contentState (properties (fst (step e g))) = VIDEO"
  unfolding step_contentState by (cases g) simp_all

lemma run_Cons:
  "run e (g # gs) = (fst (run (fst (step e g)) gs), snd (step e g) @ snd (run (fst (step e g)) gs))"
  by (simp add: case_prod_beta)

lemma run_keeps_video:
  "\<forall>g \<in> set gs. \<not> assignsContentState g \<Longrightarrow> contentState (properties e) = VIDEO \<Longrightarrow>
     contentState (properties (fst (run e gs))) = VIDEO"
proof (induction gs arbitrary: e)
  case Nil
  then show ?case by simp
next
  case (Cons g gs)
  have "contentState (properties (fst (step e g))) = VIDEO"
    using Cons.prems by (simp add: step_keeps_video)
  moreover have "\<forall>g \<in> set gs. \<not> assignsContentState g"
    using Cons.prems by simp
  ultimately have "contentState (properties (fst (run (fst (step e g)) gs))) = VIDEO"
    using Cons.IH by blast
  then show ?case by (simp only: run_Cons fst_conv)
qed

lemma run_notifications_video:
  "\<forall>n \<in> set (snd (run e gs)). detail_contentState n = VIDEO"
proof (induction gs arbitrary: e)
  case Nil
  then show ?case by simp
next
  case (Cons g gs)
  have "\<forall>n \<in> set (snd (step e g)). detail_contentState n = VIDEO"
    unfolding step_notifications by simp
  with Cons.IH [of "fst (step e g)"] show ?case
    by (auto simp only: run_Cons snd_conv set_append)
qed

lemma run_notifications_count:
  "length (snd (run e gs)) \<le> length (filter (\<lambda>g. g = ClickOverlay) gs)"
proof (induction gs arbitrary: e)
  case Nil
  then show ?case by simp
next
  case (Cons g gs)
  have "length (snd (step e g)) \<le> (if g = ClickOverlay then 1 else 0)"
    unfolding step_notifications by simp
  with Cons.IH [of "fst (step e g)"] show ?case
    by (simp only: run_Cons snd_conv length_append filter.simps split: if_splits) auto
qed

lemma run_thumbnail:
  "\<forall>g \<in> set gs. \<not> assignsContentState g \<Longrightarrow> contentState (properties e) = THUMBNAIL \<Longrightarrow>
     (contentState (properties (fst (run e gs))) = VIDEO \<longleftrightarrow> snd (run e gs) \<noteq> [])"
proof (induction gs arbitrary: e)
  case Nil
  then show ?case by simp
next
  case (Cons g gs)
  let ?e = "fst (step e g)"
  have rest: "\<forall>g \<in> set gs. \<not> assignsContentState g" and own: "\<not> assignsContentState g"
    using Cons.prems by simp_all
  show ?case
  proof (cases "g = ClickOverlay \<and> shadow e = Some Overlay")
    case True
    then have "contentState (properties ?e) = VIDEO" "snd (step e g) \<noteq> []"
      unfolding step_contentState step_notifications by simp_all
    then show ?thesis
      using run_keeps_video [OF rest, of ?e] by (simp only: run_Cons fst_conv snd_conv) simp
  next
    case False
    then have quiet: "snd (step e g) = []"
      unfolding step_notifications by simp
    have "contentState (properties ?e) = THUMBNAIL"
      using False own Cons.prems(2) unfolding step_contentState by (cases g) simp_all
    then have "contentState (properties (fst (run ?e gs))) = VIDEO \<longleftrightarrow> snd (run ?e gs) \<noteq> []"
      using Cons.IH [OF rest] by blast
    then show ?thesis
      using quiet by (simp only: run_Cons fst_conv snd_conv) simp
  qed
qed

lemma demoElement_shown:
  "shadow demoElement = Some Overlay" "contentState (properties demoElement) = THUMBNAIL"
  "videoId (properties demoElement) = Some (ascii ''0_uka1msg4'')" "pending demoElement = []"
  by (simp_all add: demoElement_def performUpdate_def newElement_def demoPlayer_def newPlayer_def
      updated_def render_def renderContent_def)

text \<open>
  Two clicks with no update in between both find the overlay button and both reach the
  handler: the state is set to \<open>VIDEO\<close> twice and two notifications are dispatched.
\<close>

lemma two_clicks_before_update:
  "snd (run demoElement [ClickOverlay, ClickOverlay]) =
     [\<lparr>detail_videoId = Some (ascii ''0_uka1msg4''), detail_contentState = VIDEO\<rparr>,
      \<lparr>detail_videoId = Some (ascii ''0_uka1msg4''), detail_contentState = VIDEO\<rparr>]"
proof -
  let ?e = "fst (step demoElement ClickOverlay)"
  have "shadow ?e = Some Overlay" "videoId (properties ?e) = Some (ascii ''0_uka1msg4'')"
    by (simp_all add: demoElement_shown handleClickOverlay_def setProperty_def)
  then show ?thesis
    by (simp add: run_Cons step_notifications demoElement_shown del: run.simps(2) step.simps)
qed

text \<open>
  C8, as the code has it. A player starts in \<open>THUMBNAIL\<close>. The click handler of the
  overlay sets \<open>VIDEO\<close> and dispatches exactly one notification carrying the video
  identifier and \<open>VIDEO\<close>, each time a click reaches it. Apart from the host assigning
  the public property \<open>contentState\<close>, a step changes the content state only when it
  is a click on the shown overlay in \<open>THUMBNAIL\<close>, and then to \<open>VIDEO\<close>; in a run
  without such an assignment the state never goes from \<open>VIDEO\<close> back to
  \<open>THUMBNAIL\<close>, and from \<open>THUMBNAIL\<close> it is \<open>VIDEO\<close> at the end exactly when a
  notification was dispatched. Every notification carries \<open>VIDEO\<close>, and there are at
  most as many as clicks. Assigning \<open>contentState\<close> sets the state to the value given,
  in either direction, and notifies nobody.
\<close>

theorem video_state_machine:
  "contentState (properties (newElement fc fd)) = THUMBNAIL \<and>
   handleClickOverlay p =
     (p\<lparr>contentState := VIDEO\<rparr>, [\<lparr>detail_videoId = videoId p, detail_contentState = VIDEO\<rparr>]) \<and>
   (shadow e = Some Overlay \<longrightarrow>
      contentState (properties (fst (step e ClickOverlay))) = VIDEO \<and>
      snd (step e ClickOverlay) =
        [\<lparr>detail_videoId = videoId (properties e), detail_contentState = VIDEO\<rparr>]) \<and>
   (\<not> assignsContentState g \<and>
    contentState (properties (fst (step e g))) \<noteq> contentState (properties e) \<longrightarrow>
      g = ClickOverlay \<and> shadow e = Some Overlay \<and> contentState (properties e) = THUMBNAIL \<and>
      contentState (properties (fst (step e g))) = VIDEO \<and>
      snd (step e g) = [\<lparr>detail_videoId = videoId (properties e), detail_contentState = VIDEO\<rparr>]) \<and>
   ((\<forall>g \<in> set gs. \<not> assignsContentState g) \<and> contentState (properties e) = VIDEO \<longrightarrow>
      contentState (properties (fst (run e gs))) = VIDEO) \<and>
   ((\<forall>g \<in> set gs. \<not> assignsContentState g) \<and> contentState (properties e) = THUMBNAIL \<longrightarrow>
      (contentState (properties (fst (run e gs))) = VIDEO \<longleftrightarrow> snd (run e gs) \<noteq> [])) \<and>
   (\<forall>n \<in> set (snd (run e gs)). detail_contentState n = VIDEO) \<and>
   length (snd (run e gs)) \<le> length (filter (\<lambda>g. g = ClickOverlay) gs) \<and>
   contentState (properties (fst (step e (SetContentState v)))) = v \<and>
   snd (step e (SetContentState v)) = []"
proof -
  have init: "contentState (properties (newElement fc fd)) = THUMBNAIL"
    by (simp add: newElement_def newPlayer_def)
  have handler: "handleClickOverlay p =
     (p\<lparr>contentState := VIDEO\<rparr>, [\<lparr>detail_videoId = videoId p, detail_contentState = VIDEO\<rparr>])"
    by (simp add: handleClickOverlay_def)
  have click: "shadow e = Some Overlay \<longrightarrow>
      contentState (properties (fst (step e ClickOverlay))) = VIDEO \<and>
      snd (step e ClickOverlay) =
        [\<lparr>detail_videoId = videoId (properties e), detail_contentState = VIDEO\<rparr>]"
    unfolding step_contentState step_notifications by simp
  have only: "\<not> assignsContentState g \<and>
    contentState (properties (fst (step e g))) \<noteq> contentState (properties e) \<longrightarrow>
      g = ClickOverlay \<and> shadow e = Some Overlay \<and> contentState (properties e) = THUMBNAIL \<and>
      contentState (properties (fst (step e g))) = VIDEO \<and>
      snd (step e g) = [\<lparr>detail_videoId = videoId (properties e), detail_contentState = VIDEO\<rparr>]"
    unfolding step_contentState step_notifications
    by (cases g; cases "contentState (properties e)") simp_all
  have video: "(\<forall>g \<in> set gs. \<not> assignsContentState g) \<and> contentState (properties e) = VIDEO \<longrightarrow>
      contentState (properties (fst (run e gs))) = VIDEO"
    using run_keeps_video by blast
  have thumb: "(\<forall>g \<in> set gs. \<not> assignsContentState g) \<and> contentState (properties e) = THUMBNAIL \<longrightarrow>
      (contentState (properties (fst (run e gs))) = VIDEO \<longleftrightarrow> snd (run e gs) \<noteq> [])"
    using run_thumbnail by blast
  have host: "contentState (properties (fst (step e (SetContentState v)))) = v"
    "snd (step e (SetContentState v)) = []"
    by (simp_all add: setProperty_def)
  note all = run_notifications_video [of e gs]
  note count = run_notifications_count [of e gs]
  show ?thesis
    by (intro conjI) (rule init handler click only video thumb all count host)+
qed

theorem video_state_machine_witness:
  "shadow demoElement = Some Overlay \<and>
   contentState (properties demoElement) = THUMBNAIL \<and>
   \<not> assignsContentState (ClickOverlay :: jsstring gesture) \<and>
   contentState (properties (fst (step demoElement ClickOverlay))) \<noteq>
     contentState (properties demoElement) \<and>
   snd (step demoElement ClickOverlay) =
     [\<lparr>detail_videoId = Some (ascii ''0_uka1msg4''), detail_contentState = VIDEO\<rparr>] \<and>
   contentState (properties (fst (run demoElement
      [SetName (ascii ''Tour''), ClickOverlay, PerformUpdate, ClickOverlay]))) = VIDEO \<and>
   snd (run demoElement [SetName (ascii ''Tour''), ClickOverlay, PerformUpdate, ClickOverlay]) \<noteq> [] \<and>
   snd (run demoElement [SetName (ascii ''Tour''), PerformUpdate]) = [] \<and>
   contentState (properties (fst (run demoElement [SetName (ascii ''Tour''), PerformUpdate]))) \<noteq>
     VIDEO \<and>
   contentState (properties (fst (step demoElement ClickOverlay))) = VIDEO \<and>
   contentState (properties (fst (run (fst (step demoElement ClickOverlay))
      [ClickOverlay, PerformUpdate, ClickOverlay, SetVideoId None]))) = VIDEO"
proof -
  let ?gs = "[SetName (ascii ''Tour''), ClickOverlay, PerformUpdate, ClickOverlay] :: jsstring gesture list"
  let ?quiet = "[SetName (ascii ''Tour''), PerformUpdate] :: jsstring gesture list"
  let ?after = "[ClickOverlay, PerformUpdate, ClickOverlay, SetVideoId None] :: jsstring gesture list"
  let ?clicked = "fst (step demoElement ClickOverlay)"
  have own: "\<forall>g \<in> set ?gs. \<not> assignsContentState g" "\<forall>g \<in> set ?quiet. \<not> assignsContentState g"
    "\<forall>g \<in> set ?after. \<not> assignsContentState g" "\<not> assignsContentState (ClickOverlay :: jsstring gesture)"
    by simp_all
  have c: "contentState (properties ?clicked) = VIDEO"
    "snd (step demoElement ClickOverlay) =
        [\<lparr>detail_videoId = videoId (properties demoElement), detail_contentState = VIDEO\<rparr>]"
    using video_state_machine [of nameOnly noDuration demoPlayer demoElement ClickOverlay ?gs]
      demoElement_shown(1) by blast+
  have first: "snd (step demoElement (SetName (ascii ''Tour''))) = []"
    "shadow (fst (step demoElement (SetName (ascii ''Tour'')))) = Some Overlay"
    by (simp_all add: setProperty_def demoElement_shown)
  have ns: "snd (run demoElement ?gs) \<noteq> []"
    using first by (simp add: run_Cons step_notifications del: run.simps(2) step.simps)
  have r1: "contentState (properties (fst (run demoElement ?gs))) = VIDEO"
    using video_state_machine [of nameOnly noDuration demoPlayer demoElement ClickOverlay ?gs]
      own(1) demoElement_shown(2) ns by blast
  have nq: "snd (run demoElement ?quiet) = []"
    by (simp add: run_Cons step_notifications del: run.simps(2) step.simps)
  have r2: "contentState (properties (fst (run demoElement ?quiet))) \<noteq> VIDEO"
    using video_state_machine [of nameOnly noDuration demoPlayer demoElement ClickOverlay ?quiet]
      own(2) demoElement_shown(2) nq by blast
  have r3: "contentState (properties (fst (run ?clicked ?after))) = VIDEO"
    using video_state_machine [of nameOnly noDuration demoPlayer ?clicked ClickOverlay ?after]
      own(3) c(1) by blast
  have moved: "contentState (properties ?clicked) \<noteq> contentState (properties demoElement)"
    using c(1) demoElement_shown(2) by simp
  have n1: "snd (step demoElement ClickOverlay) =
     [\<lparr>detail_videoId = Some (ascii ''0_uka1msg4''), detail_contentState = VIDEO\<rparr>]"
    using c(2) demoElement_shown(3) by simp
  show ?thesis
    by (intro conjI)
      (rule demoElement_shown(1) demoElement_shown(2) own(4) moved n1 r1 ns nq r2 c(1) r3)+
qed

text \<open>
  C8 as stated fails at the public property: after the click has set \<open>VIDEO\<close>, the host
  assigns \<open>contentState\<close> and the player is back in \<open>THUMBNAIL\<close>; and the host can set
  \<open>VIDEO\<close> with no click and no notification.
\<close>

theorem video_state_machine_counterexample:
  "contentState (properties (fst (run demoElement [ClickOverlay]))) = VIDEO \<and>
   contentState (properties (fst (run demoElement [ClickOverlay, SetContentState THUMBNAIL]))) =
     THUMBNAIL \<and>
   contentState (properties (fst (step demoElement (SetContentState VIDEO)))) = VIDEO \<and>
   snd (step demoElement (SetContentState VIDEO)) = []"
  by (simp add: run_Cons step_contentState step_notifications demoElement_shown
      del: run.simps(2) step.simps)

section \<open>The suggestion list and its cache\<close>

lemma listInvariant_initialState: "listInvariant (initialState p q)"
  by (simp add: listInvariant_def initialState_def)

lemma listInvariant_fetch:
  "listInvariant s \<Longrightarrow> listInvariant (fst (onSuggestionsFetchRequest p r (s, w)))"
  by (simp add: listInvariant_def onSuggestionsFetchRequest_def onSuggestionsClearedRequested_def
      dispatch_simps Let_def split: reply.split)

lemma listInvariant_iconClick:
  "listInvariant s \<Longrightarrow> listInvariant (fst (searchIconClick p (s, w)))"
  by (simp add: listInvariant_def searchIconClick_def dispatch_simps Let_def)

lemma listInvariant_locale:
  "listInvariant s \<Longrightarrow> listInvariant (localeResolved c r s)"
  by (simp add: listInvariant_def localeResolved_def dispatch_simps split: option.split)

lemma listInvariant_handle:
  assumes "listInvariant (fst sw)"
  shows "listInvariant (fst (handle p sw h))"
proof -
  obtain s w where sw: "sw = (s, w)" by (cases sw)
  with assms have inv: "listInvariant s" by simp
  show ?thesis
  proof (cases h)
    case (Change v)
    with inv sw show ?thesis
      by (simp add: listInvariant_def onChange_def dispatch_simps)
  next
    case (KeyDown k)
    with inv sw show ?thesis
      by (simp add: onKeyDown_def)
  next
    case IconClick
    with sw show ?thesis
      using listInvariant_iconClick [OF inv] by simp
  next
    case (CloseClick found)
    with inv sw show ?thesis
      by (simp add: listInvariant_def closeBtnAction_def resetSearch_def dispatch_simps Let_def)
  next
    case (FetchRequested r)
    with sw show ?thesis
      using listInvariant_fetch [OF inv] by simp
  next
    case ClearRequested
    with inv sw show ?thesis
      by (simp add: listInvariant_def onSuggestionsClearedRequested_def dispatch_simps)
  next
    case (Selected v)
    with inv sw show ?thesis by simp
  next
    case (DocumentKeyDown k)
    with inv sw show ?thesis
      by (simp add: listInvariant_def handleHideSearch_def dispatch_simps)
  next
    case (DocumentClick c)
    with inv sw show ?thesis
      by (simp add: listInvariant_def handleClickOutside_def dispatch_simps)
  next
    case (LocaleArrived native r)
    with sw show ?thesis
      using listInvariant_locale [OF inv] by simp
  qed
qed

lemma listInvariant_handleAll:
  "listInvariant (fst sw) \<Longrightarrow> listInvariant (fst (handleAll p sw hs))"
proof (induction hs arbitrary: sw)
  case Nil
  then show ?case by (simp add: handleAll_def)
next
  case (Cons h hs)
  have "listInvariant (fst (handle p sw h))"
    using Cons.prems by (rule listInvariant_handle)
  then have "listInvariant (fst (handleAll p (handle p sw h) hs))"
    by (rule Cons.IH)
  then show ?case by (simp add: handleAll_def)
qed

text \<open>
  C2, as the code has it. The initial state satisfies the invariant, every handler of the
  component, run to completion, preserves it, and so it holds after any sequence of
  handlers: the active list is empty or equal to the cache.
\<close>

theorem suggestions_empty_or_cached:
  "listInvariant (initialState p q) \<and>
   (listInvariant s \<longrightarrow> listInvariant (fst (handle p (s, w) h))) \<and>
   listInvariant (fst (handleAll p (initialState p q, w) hs))"
proof -
  have step: "listInvariant s \<longrightarrow> listInvariant (fst (handle p (s, w) h))"
    using listInvariant_handle [of "(s, w)" p h] by simp
  have "listInvariant (fst (handleAll p (initialState p q, w) hs))"
    using listInvariant_handleAll [of "(initialState p q, w)" p hs]
    by (simp add: listInvariant_initialState)
  with step show ?thesis
    by (simp add: listInvariant_initialState)
qed

theorem suggestions_empty_or_cached_witness:
  "listInvariant demoState \<and>
   listInvariant (fst (handle demoProps (demoState, freshWorld)
      (FetchRequested \<lparr>req_value = ascii ''cloud'', req_reason = ''input-changed''\<rparr>))) \<and>
   suggestions (fst (handleAll demoProps (demoState, freshWorld)
      [Change (ascii ''cloud''),
       FetchRequested \<lparr>req_value = ascii ''cloud'', req_reason = ''input-changed''\<rparr>])) =
     [ascii ''Cloud Computing''] \<and>
   listInvariant (fst (handleAll demoProps (demoState, freshWorld)
      [Change (ascii ''cloud''),
       FetchRequested \<lparr>req_value = ascii ''cloud'', req_reason = ''input-changed''\<rparr>]))"
  using suggestions_empty_or_cached [of demoProps None demoState freshWorld
      "FetchRequested \<lparr>req_value = ascii ''cloud'', req_reason = ''input-changed''\<rparr>"
      "[Change (ascii ''cloud''),
        FetchRequested \<lparr>req_value = ascii ''cloud'', req_reason = ''input-changed''\<rparr>]"]
  by (simp add: demoState_def handleAll_def onChange_def onSuggestionsFetchRequest_def
      demo_searchValue demo_typeahead dispatch_simps)

text \<open>
  C2 as stated, for any sequence of reducer actions, fails: \<open>setPrevSuggestions\<close>
  replaces the cache and leaves the active list alone, so after a first result has been
  made active, storing a second result gives an active list that is neither empty nor the
  cache. This is the state between the first and the second dispatch of a completed fetch.
\<close>

theorem reducer_sequence_counterexample:
  "suggestions (dispatch demoState
      [setPrevSuggestions [ascii ''Cloud Computing''], act ''setSuggestionsToPrevious'',
       setPrevSuggestions [ascii ''Cloud Pak'']]) = [ascii ''Cloud Computing''] \<and>
   prevSuggestions (dispatch demoState
      [setPrevSuggestions [ascii ''Cloud Computing''], act ''setSuggestionsToPrevious'',
       setPrevSuggestions [ascii ''Cloud Pak'']]) = [ascii ''Cloud Pak''] \<and>
   \<not> listInvariant (dispatch demoState
      [setPrevSuggestions [ascii ''Cloud Computing''], act ''setSuggestionsToPrevious'',
       setPrevSuggestions [ascii ''Cloud Pak'']])"
  by (simp add: dispatch_simps listInvariant_def ascii_def)

section \<open>Video player: the caption\<close>

text \<open>
  C9, as the code has it. When \<open>duration\<close>, \<open>formatCaption\<close> or \<open>name\<close> is among
  the changed properties, \<open>updated\<close> recomputes the caption (the caption formatter applied
  to the formatted duration, in milliseconds, and the name) and writes it to
  \<open>aria-label\<close> if it is not empty; an empty caption leaves the element as it was.
  \<open>render\<close> shows the same caption unless the caption is hidden.
\<close>

theorem caption_mirrored:
  "(''duration'' \<in> set ch \<or> ''formatCaption'' \<in> set ch \<or> ''name'' \<in> set ch \<longrightarrow>
      (caption p \<noteq> [] \<longrightarrow> updated ch p = p\<lparr>ariaLabel := Some (caption p)\<rparr>) \<and>
      (caption p = [] \<longrightarrow> updated ch p = p)) \<and>
   snd (render p) = (if hideCaption p then None else Some (caption p)) \<and>
   caption p =
     formatCaption p
       (formatDuration p (map_option (\<lambda>d. if d = 0 then d else d * 1000) (duration p))) (name p)"
  by (simp add: updated_def render_def caption_def split: option.split)

theorem caption_mirrored_witness:
  "''name'' \<in> set [''name''] \<and> caption demoPlayer \<noteq> [] \<and>
   ariaLabel (updated [''name''] demoPlayer) = Some (ascii ''Intro'') \<and>
   ''duration'' \<in> set [''duration''] \<and> caption labelledPlayer = [] \<and>
   updated [''duration''] labelledPlayer = labelledPlayer \<and>
   snd (render demoPlayer) = Some (ascii ''Intro'')"
  using caption_mirrored [of "[''name'']" demoPlayer] caption_mirrored [of "[''duration'']" labelledPlayer]
  by (simp add: demoPlayer_def labelledPlayer_def newPlayer_def caption_def nameOnly_def ascii_def)

text \<open>
  C9 as stated fails where the recomputed caption is empty: the label set earlier stays.
\<close>

theorem caption_mirrored_counterexample:
  "''name'' \<in> set [''name''] \<and> caption labelledPlayer = [] \<and>
   ariaLabel (updated [''name''] labelledPlayer) = Some (ascii ''Intro'') \<and>
   ariaLabel (updated [''name''] labelledPlayer) \<noteq> Some (caption labelledPlayer)"
  by (simp add: updated_def demoPlayer_def labelledPlayer_def newPlayer_def caption_def
      nameOnly_def ascii_def)

section \<open>Selecting a suggestion\<close>

subsection \<open>What encodeURIComponent returns\<close>

lemma andThen_Inr: "andThen r f = Inr y \<longleftrightarrow> (\<exists>x. r = Inr x \<and> y = f x)"
  by (auto simp: andThen_def split: sum.splits)

lemma andThen_simps: "andThen (Inr x) f = Inr (f x)" "andThen (Inl e) f = Inl e"
  by (simp_all add: andThen_def)

lemma unreserved_not_surrogate:
  "isUnreserved c \<Longrightarrow> \<not> isHighSurrogate c \<and> \<not> isLowSurrogate c"
  unfolding isUnreserved_def isHighSurrogate_def isLowSurrogate_def word_le_nat_alt
  by (elim disjE) simp_all

lemma encode_wellFormed: "isWellFormed v \<Longrightarrow> \<exists>q. encodeURIComponent v = Inr q"
proof (induction v rule: encodeURIComponent.induct)
  case 1
  then show ?case by simp
next
  case (2 c)
  then show ?case by simp
next
  case (3 c d ds)
  then show ?case
    using unreserved_not_surrogate [of c] by (auto simp: andThen_simps split: if_splits)
qed

lemma encode_illFormed: "\<not> isWellFormed v \<Longrightarrow> encodeURIComponent v = Inl URIError"
proof (induction v rule: encodeURIComponent.induct)
  case 1
  then show ?case by simp
next
  case (2 c)
  then show ?case using unreserved_not_surrogate [of c] by auto
next
  case (3 c d ds)
  then show ?case
    using unreserved_not_surrogate [of c] by (auto simp: andThen_simps split: if_splits)
qed

lemma hexDigit_unreserved: "n < 16 \<Longrightarrow> isUnreserved (hexDigit n)"
proof -
  assume "n < 16"
  then have "n \<in> {0, 1, 2, 3, 4, 5, 6, 7, 8, 9, 10, 11, 12, 13, 14, 15}"
    by simp arith
  then show ?thesis
    by (auto simp: hexDigit_def isUnreserved_def)
qed

lemma percent_escaped: "b < 256 \<Longrightarrow> isEscaped (percent b)"
proof -
  assume "b < 256"
  then have "b div 16 < 16" "b mod 16 < 16" by simp_all
  then show ?thesis
    by (simp add: isEscaped_def percent_def hexDigit_unreserved)
qed

lemma isEscaped_append: "isEscaped (xs @ ys) \<longleftrightarrow> isEscaped xs \<and> isEscaped ys"
  by (simp add: isEscaped_def)

lemma utf8_octets: "cp < 0x110000 \<Longrightarrow> \<forall>b \<in> set (utf8 cp). b < 256"
proof -
  assume cp: "cp < 0x110000"
  have m: "x mod 64 < 128" for x :: nat
    using mod_less_divisor [of 64 x] by simp
  have d1: "cp < 2048 \<Longrightarrow> cp div 64 < 64" by (simp add: div_less_iff_less_mult)
  have d2: "cp < 65536 \<Longrightarrow> cp div 4096 < 32" by (simp add: div_less_iff_less_mult)
  have d3: "cp div 262144 < 16" using cp by (simp add: div_less_iff_less_mult)
  show ?thesis
    using d1 d2 d3 by (simp add: utf8_def m)
qed

lemma escapeCodePoint_escaped: "cp < 0x110000 \<Longrightarrow> isEscaped (escapeCodePoint cp)"
proof -
  assume "cp < 0x110000"
  then have "\<forall>b \<in> set (utf8 cp). isEscaped (percent b)"
    using utf8_octets percent_escaped by blast
  then show ?thesis
    unfolding escapeCodePoint_def isEscaped_def by (induction "utf8 cp") (auto simp: list_all_iff)
qed

lemma codeUnit_bound: "unat (c :: 16 word) < 0x110000"
proof -
  have "unat c < 2 ^ 16" using unsigned_less [of c, where ?'a = nat] by simp
  then show ?thesis by simp
qed

lemma surrogatePair_bound:
  "isHighSurrogate h \<Longrightarrow> isLowSurrogate l \<Longrightarrow> surrogatePair h l < 0x110000"
  unfolding isHighSurrogate_def isLowSurrogate_def surrogatePair_def word_le_nat_alt
  by simp arith

lemma encode_escaped: "encodeURIComponent v = Inr q \<Longrightarrow> isEscaped q"
proof (induction v arbitrary: q rule: encodeURIComponent.induct)
  case 1
  then show ?case by (simp add: isEscaped_def)
next
  case (2 c)
  then show ?case
    using escapeCodePoint_escaped [OF codeUnit_bound, of c]
    by (auto simp: isEscaped_def split: if_splits)
next
  case (3 c d ds)
  show ?case
  proof (cases "isUnreserved c")
    case True
    with "3.prems" obtain r where r: "encodeURIComponent (d # ds) = Inr r" "q = c # r"
      by (auto simp: andThen_Inr)
    with True "3.IH"(1) show ?thesis
      by (simp add: isEscaped_def)
  next
    case False
    note unres = this
    show ?thesis
    proof (cases "isHighSurrogate c")
      case True
      with unres "3.prems" have low: "\<not> isLowSurrogate c" "isLowSurrogate d"
        by (auto split: if_splits)
      with unres True "3.prems" obtain r where
        r: "encodeURIComponent ds = Inr r" "q = escapeCodePoint (surrogatePair c d) @ r"
        by (auto simp: andThen_Inr)
      have "isEscaped r"
        using "3.IH"(2) [OF unres low(1) True low(2) r(1)] .
      moreover have "isEscaped (escapeCodePoint (surrogatePair c d))"
        using surrogatePair_bound [OF True low(2)] by (rule escapeCodePoint_escaped)
      ultimately show ?thesis
        using r(2) by (simp add: isEscaped_append)
    next
      case False
      with unres "3.prems" have low: "\<not> isLowSurrogate c"
        by (auto split: if_splits)
      with unres False "3.prems" obtain r where
        r: "encodeURIComponent (d # ds) = Inr r" "q = escapeCodePoint (unat c) @ r"
        by (auto simp: andThen_Inr)
      have "isEscaped r"
        using "3.IH"(3) [OF unres low False r(1)] .
      moreover have "isEscaped (escapeCodePoint (unat c))"
        using codeUnit_bound by (rule escapeCodePoint_escaped)
      ultimately show ?thesis
        using r(2) by (simp add: isEscaped_append)
    qed
  qed
qed

subsection \<open>The selection handler\<close>

lemma demo_encode: "encodeURIComponent (ascii ''cloud computing'') = Inr (ascii ''cloud%20computing'')"
  by (simp add: ascii_def isUnreserved_def isHighSurrogate_def isLowSurrogate_def andThen_simps
      escapeCodePoint_def utf8_def percent_def hexDigit_def)

lemma demo_wellFormed: "isWellFormed (ascii ''cloud computing'')"
  by (simp add: ascii_def isHighSurrogate_def isLowSurrogate_def)

lemma lone_surrogate: "\<not> isWellFormed [0xD800]"
  by (simp add: isHighSurrogate_def)

text \<open>
  C3, as the code has it. With redirect suppression the handler dispatches exactly one
  \<open>onSearchNoRedirect\<close> event carrying the selected value, prevents the default action
  and leaves the location alone. Without it, a well-formed value sends the browser to
  the endpoint followed by \<open>&q=\<close>, the encoded value (unreserved characters and
  \<open>%XX\<close> escapes only), \<open>&lang=\<close>, the current language, \<open>&cc=\<close> and the current
  country; a value with an unpaired surrogate makes \<open>encodeURIComponent\<close> throw, and
  the location stays as it was.
\<close>

theorem suggestion_selected:
  "(searchNoRedirect p \<longrightarrow>
      onSuggestionSelected p s v w =
        w\<lparr>events := events w @
             [\<lparr>ev_name = ''onSearchNoRedirect'', bubbles = True, ev_detail = Some v\<rparr>],
          defaultPrevented := True\<rparr> \<and>
      location (onSuggestionSelected p s v w) = location w) \<and>
   (\<not> searchNoRedirect p \<and> isWellFormed v \<longrightarrow>
      (\<exists>q. encodeURIComponent v = Inr q \<and> isEscaped q \<and>
           onSuggestionSelected p s v w =
             w\<lparr>location := redirectUrl p @ ascii ''&q='' @ q @ ascii ''&lang='' @ lc s @
                             ascii ''&cc='' @ cc s\<rparr>)) \<and>
   (\<not> searchNoRedirect p \<and> \<not> isWellFormed v \<longrightarrow>
      onSuggestionSelected p s v w = raise URIError w \<and>
      location (onSuggestionSelected p s v w) = location w)"
proof -
  have notify: "searchNoRedirect p \<longrightarrow>
      onSuggestionSelected p s v w =
        w\<lparr>events := events w @
             [\<lparr>ev_name = ''onSearchNoRedirect'', bubbles = True, ev_detail = Some v\<rparr>],
          defaultPrevented := True\<rparr> \<and>
      location (onSuggestionSelected p s v w) = location w"
    by (simp add: onSuggestionSelected_def onSearchNoRedirect_def emit_def)
  have redirect: "\<not> searchNoRedirect p \<and> isWellFormed v \<longrightarrow>
      (\<exists>q. encodeURIComponent v = Inr q \<and> isEscaped q \<and>
           onSuggestionSelected p s v w =
             w\<lparr>location := redirectUrl p @ ascii ''&q='' @ q @ ascii ''&lang='' @ lc s @
                             ascii ''&cc='' @ cc s\<rparr>)"
  proof
    assume a: "\<not> searchNoRedirect p \<and> isWellFormed v"
    then obtain q where q: "encodeURIComponent v = Inr q"
      using encode_wellFormed by blast
    then have "isEscaped q" by (rule encode_escaped)
    moreover have "onSuggestionSelected p s v w =
        w\<lparr>location := redirectUrl p @ ascii ''&q='' @ q @ ascii ''&lang='' @ lc s @
                        ascii ''&cc='' @ cc s\<rparr>"
      using a q by (simp add: onSuggestionSelected_def getRedirect_def navigate_def andThen_simps)
    ultimately show "\<exists>q. encodeURIComponent v = Inr q \<and> isEscaped q \<and>
           onSuggestionSelected p s v w =
             w\<lparr>location := redirectUrl p @ ascii ''&q='' @ q @ ascii ''&lang='' @ lc s @
                             ascii ''&cc='' @ cc s\<rparr>"
      using q by blast
  qed
  have throws: "\<not> searchNoRedirect p \<and> \<not> isWellFormed v \<longrightarrow>
      onSuggestionSelected p s v w = raise URIError w \<and>
      location (onSuggestionSelected p s v w) = location w"
    by (simp add: onSuggestionSelected_def getRedirect_def navigate_def andThen_simps
        encode_illFormed raise_def)
  from notify redirect throws show ?thesis by blast
qed

theorem suggestion_selected_witness:
  "searchNoRedirect (demoProps\<lparr>searchNoRedirect := True\<rparr>) \<and>
   events (onSuggestionSelected (demoProps\<lparr>searchNoRedirect := True\<rparr>) demoState
      (ascii ''cloud computing'') freshWorld) =
     [\<lparr>ev_name = ''onSearchNoRedirect'', bubbles = True, ev_detail = Some (ascii ''cloud computing'')\<rparr>] \<and>
   location (onSuggestionSelected (demoProps\<lparr>searchNoRedirect := True\<rparr>) demoState
      (ascii ''cloud computing'') freshWorld) = location freshWorld \<and>
   \<not> searchNoRedirect demoProps \<and> isWellFormed (ascii ''cloud computing'') \<and>
   location (onSuggestionSelected demoProps demoState (ascii ''cloud computing'') freshWorld) =
     ascii ''https://www.ibm.com/search?lnk=mhsrch&q=cloud%20computing&lang=en&cc=us'' \<and>
   \<not> isWellFormed [0xD800] \<and>
   onSuggestionSelected demoProps demoState [0xD800] freshWorld = raise URIError freshWorld"
proof -
  let ?P = "demoProps\<lparr>searchNoRedirect := True\<rparr>"
  let ?v = "ascii ''cloud computing''"
  have on: "searchNoRedirect ?P" by simp
  have off: "\<not> searchNoRedirect demoProps"
    by (simp add: demoProps_def defaultProps_def)
  have e1: "onSuggestionSelected ?P demoState ?v freshWorld =
        freshWorld\<lparr>events := events freshWorld @
             [\<lparr>ev_name = ''onSearchNoRedirect'', bubbles = True, ev_detail = Some ?v\<rparr>],
          defaultPrevented := True\<rparr> \<and>
      location (onSuggestionSelected ?P demoState ?v freshWorld) = location freshWorld"
    using suggestion_selected [of ?P demoState ?v freshWorld] on by blast
  obtain q where q: "encodeURIComponent ?v = Inr q"
    "onSuggestionSelected demoProps demoState ?v freshWorld =
       freshWorld\<lparr>location := redirectUrl demoProps @ ascii ''&q='' @ q @ ascii ''&lang='' @
          lc demoState @ ascii ''&cc='' @ cc demoState\<rparr>"
    using suggestion_selected [of demoProps demoState ?v freshWorld] off demo_wellFormed by blast
  have "q = ascii ''cloud%20computing''"
    using q(1) demo_encode by simp
  then have e2: "location (onSuggestionSelected demoProps demoState ?v freshWorld) =
     ascii ''https://www.ibm.com/search?lnk=mhsrch&q=cloud%20computing&lang=en&cc=us''"
    using q(2) by (simp add: demoProps_def defaultProps_def demoState_def initialState_def ascii_def)
  have e3: "onSuggestionSelected demoProps demoState [0xD800] freshWorld = raise URIError freshWorld"
    using suggestion_selected [of demoProps demoState "[0xD800]" freshWorld] off lone_surrogate
    by blast
  have ev: "events (onSuggestionSelected ?P demoState ?v freshWorld) =
     [\<lparr>ev_name = ''onSearchNoRedirect'', bubbles = True, ev_detail = Some ?v\<rparr>]"
    using e1 by (simp add: freshWorld_def)
  from on off demo_wellFormed lone_surrogate e1 e2 e3 ev show ?thesis
    by blast
qed

text \<open>
  C3 as stated, for every selection, fails at a value that is one unpaired surrogate:
  without redirect suppression nothing is navigated to.
\<close>

theorem suggestion_selected_counterexample:
  "\<not> searchNoRedirect demoProps \<and>
   encodeURIComponent [0xD800] = Inl URIError \<and>
   location (onSuggestionSelected demoProps demoState [0xD800] freshWorld) = location freshWorld \<and>
   uncaught (onSuggestionSelected demoProps demoState [0xD800] freshWorld) = [URIError]"
  by (simp add: onSuggestionSelected_def getRedirect_def navigate_def andThen_simps raise_def
      isUnreserved_def isHighSurrogate_def isLowSurrogate_def demoProps_def defaultProps_def
      freshWorld_def)

end
